theory Spec2Isabelle
  imports Complex_Main
begin

section \<open>Python exceptions\<close>

text \<open>
  The exceptions the two scripts can meet. A constructor stands for a class together with
  its subclasses that are not listed separately. \<open>KeyboardInterrupt\<close>, \<open>SystemExit\<close> and
  \<open>OtherBaseException\<close> derive from \<open>BaseException\<close> only; every other constructor is a
  subclass of \<open>Exception\<close>. \<open>RequestsConnectionError\<close> is
  \<open>requests.exceptions.ConnectionError\<close>, the class named by the harness.
\<close>

datatype exc =
    KeyboardInterrupt
  | SystemExit int
  | OtherBaseException string
  | RequestsConnectionError
  | ValueError string
  | TypeError
  | KeyError
  | IndexError
  | AttributeError
  | UnboundLocalError string
  | JSONDecodeError
  | OtherException string

text \<open>What \<open>except Exception\<close> catches.\<close>

fun is_Exception :: "exc \<Rightarrow> bool" where
  "is_Exception KeyboardInterrupt = False"
| "is_Exception (SystemExit c) = False"
| "is_Exception (OtherBaseException m) = False"
| "is_Exception e = True"

section \<open>run.py: the bootstrap entry point\<close>

text \<open>
  Everything \<open>main\<close> reads from outside is a field of \<open>platform\<close>: the process
  environment, the builtin \<open>int\<close> on a string (it returns an integer or raises),
  \<open>create_app\<close> of the \<open>app\<close> package (not part of the two scripts) and the \<open>run\<close> method
  of the application object, which either returns or raises.
\<close>

record 'app platform =
  environ :: "string \<rightharpoonup> string"
  py_int :: "string \<Rightarrow> exc + int"
  create_app :: "string \<Rightarrow> exc + 'app"
  app_run :: "'app \<Rightarrow> string \<Rightarrow> int \<Rightarrow> bool \<Rightarrow> exc option"

text \<open>The lines \<open>main\<close> prints, one constructor for each \<open>print\<close> of the source.\<close>

datatype banner =
    Starting
  | RunningOn string int
  | Environment string
  | DebugMode bool
  | ApiDocumentation
  | AdminApis string int
  | UserApis string int
  | AnalyticsApis string int
  | SampleAdminUser
  | Rule
  | ShuttingDown
  | ErrorStarting exc

text \<open>
  What a call of \<open>main\<close> leaves behind: the lines printed, the argument given to
  \<open>create_app\<close>, the arguments given to \<open>app.run\<close> (when it was reached) and how \<open>main\<close>
  ends: \<open>Inr ()\<close> when it returns, \<open>Inl e\<close> when \<open>e\<close> leaves it. \<open>sys.exit(1)\<close> raises
  \<open>SystemExit 1\<close>.
\<close>

record main_trace =
  printed :: "banner list"
  created_with :: "string option"
  run_with :: "(string \<times> int \<times> bool) option"
  ending :: "exc + unit"

definition os_getenv :: "(string \<rightharpoonup> string) \<Rightarrow> string \<Rightarrow> string \<Rightarrow> string" where
  "os_getenv env key dflt = (case env key of None \<Rightarrow> dflt | Some v \<Rightarrow> v)"

text \<open>\<open>int(os.getenv('PORT', 5000))\<close>: the default is the integer 5000 itself.\<close>

definition port_of :: "'app platform \<Rightarrow> exc + int" where
  "port_of p = (case environ p ''PORT'' of None \<Rightarrow> Inr 5000 | Some s \<Rightarrow> py_int p s)"

definition main :: "'app platform \<Rightarrow> main_trace" where
  "main p =
    (let config_name = os_getenv (environ p) ''FLASK_ENV'' ''development'' in
     case create_app p config_name of
       Inl e \<Rightarrow>
         \<lparr>printed = [], created_with = Some config_name, run_with = None, ending = Inl e\<rparr>
     | Inr app \<Rightarrow>
        (let host = os_getenv (environ p) ''HOST'' ''127.0.0.1'' in
         case port_of p of
           Inl e \<Rightarrow>
             \<lparr>printed = [], created_with = Some config_name, run_with = None, ending = Inl e\<rparr>
         | Inr port \<Rightarrow>
            (let debug = (config_name = ''development'');
                 out = [Starting, RunningOn host port, Environment config_name, DebugMode debug]
                       @ (if config_name = ''development''
                          then [ApiDocumentation, AdminApis host port, UserApis host port,
                                AnalyticsApis host port, SampleAdminUser]
                          else [])
                       @ [Rule];
                 called = Some (host, port, debug)
             in case app_run p app host port debug of
                  None \<Rightarrow>
                    \<lparr>printed = out, created_with = Some config_name, run_with = called,
                     ending = Inr ()\<rparr>
                | Some e \<Rightarrow>
                    if e = KeyboardInterrupt then
                      \<lparr>printed = out @ [ShuttingDown], created_with = Some config_name,
                       run_with = called, ending = Inr ()\<rparr>
                    else if is_Exception e then
                      \<lparr>printed = out @ [ErrorStarting e], created_with = Some config_name,
                       run_with = called, ending = Inl (SystemExit 1)\<rparr>
                    else
                      \<lparr>printed = out, created_with = Some config_name, run_with = called,
                       ending = Inl e\<rparr>)))"

text \<open>
  A concrete platform for evaluation. \<open>decimal_int\<close> is not Python's \<open>int\<close>: it parses a
  non-empty string of ASCII digits only (no sign, surrounding space or underscore), and
  its \<open>ValueError\<close> carries the input rather than Python's message. The theorems about
  \<open>main\<close> hold for every \<open>py_int\<close>; this one is used at digit strings and at a string
  that Python rejects as well.
\<close>

fun digits_value :: "string \<Rightarrow> int \<Rightarrow> int option" where
  "digits_value [] acc = Some acc"
| "digits_value (c # cs) acc =
     (if 48 \<le> (of_char c :: nat) \<and> (of_char c :: nat) \<le> 57
      then digits_value cs (10 * acc + (int (of_char c) - 48))
      else None)"

definition decimal_int :: "string \<Rightarrow> exc + int" where
  "decimal_int s =
     (if s = [] then Inl (ValueError s)
      else case digits_value s 0 of None \<Rightarrow> Inl (ValueError s) | Some n \<Rightarrow> Inr n)"

definition demo_platform :: "(string \<rightharpoonup> string) \<Rightarrow> exc option \<Rightarrow> unit platform" where
  "demo_platform env r =
     \<lparr>environ = env, py_int = decimal_int, create_app = (\<lambda>c. Inr ()),
      app_run = (\<lambda>a h pt d. r)\<rparr>"

section \<open>test_system.py: values, requests and the console\<close>

text \<open>
  What \<open>response.json()\<close> can return. A JSON object is an association list in the
  order of the document, its keys distinct. Python's \<open>None\<close> is \<open>JNull\<close>.
\<close>

datatype pyfloat = Finite rat | NaN | Infinity bool

datatype json =
    JNull
  | JBool bool
  | JInt int
  | JFloat pyfloat
  | JStr string
  | JList "json list"
  | JDict "(string \<times> json) list"

text \<open>
  An f-string is kept as its pieces: literal text and the values substituted into it.
  Rendering a value as text is Python's \<open>format\<close>, which the model does not evaluate.
\<close>

datatype piece = Lit string | Fmt json

type_synonym fstring = "piece list"

definition BASE_URL :: string where
  "BASE_URL = ''http://127.0.0.1:5000''"

text \<open>The three calls of the \<open>requests\<close> library: URL, JSON body, headers.\<close>

datatype http_call =
    Get fstring
  | Post fstring json "(string \<times> string) list"
  | Put fstring json "(string \<times> string) list"

text \<open>
  The parts of a \<open>requests.Response\<close> the harness reads. \<open>resp_json\<close> is what
  \<open>response.json()\<close> does: it returns the parsed body or raises.
\<close>

record response =
  status_code :: int
  resp_text :: string
  resp_content :: string
  resp_json :: "exc + json"

text \<open>
  The server is a transition function on a state of its own: it answers a call with a
  response or an exception of the \<open>requests\<close> library, and moves to a new state.
\<close>

type_synonym 'st http = "http_call \<Rightarrow> 'st \<Rightarrow> (exc + response) \<times> 'st"

text \<open>The lines the harness prints, one constructor for each \<open>print\<close> of the source.\<close>

datatype line =
    StatusLine bool string fstring int
  | ExpectedGot int int
  | ResponseExcerpt string
  | ConnectionFailed fstring
  | MakeSureServerRunning
  | ErrorTesting string fstring exc
  | StartingSystemTests
  | TestingSystemHealth
  | SystemIsHealthy
  | HealthCheckFailed
  | TestingAdminApis
  | FoundUsers nat nat nat
  | FoundTeams nat
  | FoundAlerts nat nat
  | TestingAlertCreation
  | CreatedTestAlert json
  | CleanedUpTestAlert
  | TestingUserApis
  | UserHasAlerts json nat
  | DashboardSummary json json json
  | TestedInteractions
  | TestingAnalyticsApis
  | SystemOverview json json
  | TestingNotificationHistory
  | FoundDeliveries nat
  | TestingSystemStatistics
  | RetrievedStatistics
  | TestsCompleted
  | Plain string
  | TestingReminderSystem
  | TriggeredReminder json
  | SentReminders json
  | ReminderFailedOrNotNeeded
  | NoActiveAlerts

text \<open>
  The world a harness function runs in: the server's state, the console, the calls made
  to the \<open>requests\<close> library, and the arguments of every invocation of
  \<open>test_api_endpoint\<close> (method, endpoint, data, expected status).
\<close>

record 'st world =
  server :: 'st
  console :: "line list"
  issued :: "http_call list"
  invoked :: "(string \<times> fstring \<times> json \<times> int) list"

type_synonym ('a, 'st) prog = "'st world \<Rightarrow> (exc + 'a) \<times> 'st world"

definition ret :: "'a \<Rightarrow> ('a, 'st) prog" where
  "ret x w = (Inr x, w)"

definition raise :: "exc \<Rightarrow> ('a, 'st) prog" where
  "raise e w = (Inl e, w)"

definition lift :: "exc + 'a \<Rightarrow> ('a, 'st) prog" where
  "lift r w = (r, w)"

definition andthen :: "('a, 'st) prog \<Rightarrow> ('a \<Rightarrow> ('b, 'st) prog) \<Rightarrow> ('b, 'st) prog" where
  "andthen m f w = (case m w of (Inl e, w') \<Rightarrow> (Inl e, w') | (Inr x, w') \<Rightarrow> f x w')"

definition say :: "line \<Rightarrow> (unit, 'st) prog" where
  "say l w = (Inr (), w\<lparr>console := console w @ [l]\<rparr>)"

definition after :: "exc + 'a \<Rightarrow> ('a \<Rightarrow> exc + 'b) \<Rightarrow> exc + 'b" where
  "after r f = (case r of Inl e \<Rightarrow> Inl e | Inr x \<Rightarrow> f x)"

subsection \<open>Python operations on parsed JSON\<close>

fun truthy :: "json \<Rightarrow> bool" where
  "truthy JNull = False"
| "truthy (JBool b) = b"
| "truthy (JInt n) = (n \<noteq> 0)"
| "truthy (JFloat f) = (f \<noteq> Finite 0)"
| "truthy (JStr s) = (s \<noteq> [])"
| "truthy (JList l) = (l \<noteq> [])"
| "truthy (JDict d) = (d \<noteq> [])"

text \<open>\<open>v.get(key, default)\<close>: only a dict has the method.\<close>

fun py_get :: "json \<Rightarrow> string \<Rightarrow> json \<Rightarrow> exc + json" where
  "py_get (JDict d) k dflt = Inr (case map_of d k of None \<Rightarrow> dflt | Some v \<Rightarrow> v)"
| "py_get v k dflt = Inl AttributeError"

text \<open>\<open>v[key]\<close> with a string key.\<close>

fun py_getitem :: "json \<Rightarrow> string \<Rightarrow> exc + json" where
  "py_getitem (JDict d) k = (case map_of d k of None \<Rightarrow> Inl KeyError | Some v \<Rightarrow> Inr v)"
| "py_getitem v k = Inl TypeError"

text \<open>\<open>v[0]\<close>. The keys of a parsed JSON object are strings, so 0 is never one of them.\<close>

fun py_getitem0 :: "json \<Rightarrow> exc + json" where
  "py_getitem0 (JList l) = (case l of [] \<Rightarrow> Inl IndexError | x # xs \<Rightarrow> Inr x)"
| "py_getitem0 (JStr s) = (case s of [] \<Rightarrow> Inl IndexError | c # cs \<Rightarrow> Inr (JStr [c]))"
| "py_getitem0 (JDict d) = Inl KeyError"
| "py_getitem0 v = Inl TypeError"

fun is_substring :: "string \<Rightarrow> string \<Rightarrow> bool" where
  "is_substring k [] = (k = [])"
| "is_substring k (c # cs) = (take (length k) (c # cs) = k \<or> is_substring k cs)"

text \<open>\<open>key in v\<close> with a string key.\<close>

fun py_contains :: "string \<Rightarrow> json \<Rightarrow> exc + bool" where
  "py_contains k (JDict d) = Inr (k \<in> set (map fst d))"
| "py_contains k (JList l) = Inr (JStr k \<in> set l)"
| "py_contains k (JStr s) = Inr (is_substring k s)"
| "py_contains k v = Inl TypeError"

text \<open>\<open>for x in v\<close>: the elements of a list, the keys of a dict, the characters of a string.\<close>

fun py_iter :: "json \<Rightarrow> exc + json list" where
  "py_iter (JList l) = Inr l"
| "py_iter (JDict d) = Inr (map (\<lambda>kv. JStr (fst kv)) d)"
| "py_iter (JStr s) = Inr (map (\<lambda>c. JStr [c]) s)"
| "py_iter v = Inl TypeError"

fun py_len :: "json \<Rightarrow> exc + nat" where
  "py_len (JList l) = Inr (length l)"
| "py_len (JDict d) = Inr (length d)"
| "py_len (JStr s) = Inr (length s)"
| "py_len v = Inl TypeError"

text \<open>\<open>[x for x in xs if p(x)]\<close>, where the condition may raise.\<close>

fun filter_by :: "(json \<Rightarrow> exc + bool) \<Rightarrow> json list \<Rightarrow> exc + json list" where
  "filter_by p [] = Inr []"
| "filter_by p (x # xs) =
     (case p x of
        Inl e \<Rightarrow> Inl e
      | Inr b \<Rightarrow>
         (case filter_by p xs of
            Inl e \<Rightarrow> Inl e
          | Inr ys \<Rightarrow> Inr (if b then x # ys else ys)))"

text \<open>The condition \<open>r and key in r\<close>.\<close>

definition has_key :: "json \<Rightarrow> string \<Rightarrow> exc + bool" where
  "has_key r k = (if truthy r then py_contains k r else Inr False)"

text \<open>The condition \<open>r and r.get(key)\<close>.\<close>

definition has_true :: "json \<Rightarrow> string \<Rightarrow> exc + bool" where
  "has_true r k = (if truthy r then after (py_get r k JNull) (\<lambda>v. Inr (truthy v)) else Inr False)"

text \<open>Reading a local variable that an earlier branch may have left unassigned.\<close>

definition local_var :: "string \<Rightarrow> 'a option \<Rightarrow> exc + 'a" where
  "local_var name v = (case v of None \<Rightarrow> Inl (UnboundLocalError name) | Some x \<Rightarrow> Inr x)"

text \<open>
  \<open>str.upper\<close> on the ASCII letters; other characters are kept. Python also maps
  letters outside ASCII, some of them to ASCII letters; the theorems about
  \<open>test_api_endpoint_with\<close> therefore take the function as a parameter, and the harness
  calls it on the literals \<open>GET\<close>, \<open>POST\<close> and \<open>PUT\<close> only.
\<close>

definition py_upper :: "string \<Rightarrow> string" where
  "py_upper s =
     map (\<lambda>c. if 97 \<le> (of_char c :: nat) \<and> (of_char c :: nat) \<le> 122
               then char_of ((of_char c :: nat) - 32) else c) s"

subsection \<open>test_api_endpoint\<close>

definition json_headers :: "(string \<times> string) list" where
  "json_headers = [(''Content-Type'', ''application/json'')]"

text \<open>The \<open>if\<close>/\<open>elif\<close> chain on the method: the call to make, or the \<open>ValueError\<close>.\<close>

definition request_for :: "(string \<Rightarrow> string) \<Rightarrow> string \<Rightarrow> fstring \<Rightarrow> json \<Rightarrow> exc + http_call"
  where
  "request_for upper method url data =
     (if upper method = ''GET'' then Inr (Get url)
      else if upper method = ''POST'' then Inr (Post url data json_headers)
      else if upper method = ''PUT'' then Inr (Put url data json_headers)
      else Inl (ValueError (''Unsupported method: '' @ method)))"

definition perform :: "'st http \<Rightarrow> http_call \<Rightarrow> (response, 'st) prog" where
  "perform http c w =
     (case http c (server w) of
        (r, s') \<Rightarrow> (r, w\<lparr>server := s', issued := issued w @ [c]\<rparr>))"

text \<open>The body of the \<open>try\<close> block.\<close>

definition try_body ::
  "(string \<Rightarrow> string) \<Rightarrow> 'st http \<Rightarrow> string \<Rightarrow> fstring \<Rightarrow> fstring \<Rightarrow> json \<Rightarrow> int
     \<Rightarrow> (json, 'st) prog" where
  "try_body upper http method endpoint url data expected_status =
     andthen (lift (request_for upper method url data)) (\<lambda>c.
     andthen (perform http c) (\<lambda>response.
     andthen (say (StatusLine (status_code response = expected_status) method endpoint
                     (status_code response))) (\<lambda>_.
     andthen (if status_code response \<noteq> expected_status
              then andthen (say (ExpectedGot expected_status (status_code response))) (\<lambda>_.
                   say (ResponseExcerpt (take 200 (resp_text response))))
              else ret ()) (\<lambda>_.
     lift (if resp_content response \<noteq> [] then resp_json response else Inr (JDict []))))))"

text \<open>The two \<open>except\<close> clauses, in the order of the source.\<close>

definition handlers :: "string \<Rightarrow> fstring \<Rightarrow> fstring \<Rightarrow> exc \<Rightarrow> (json, 'st) prog" where
  "handlers method endpoint url e =
     (if e = RequestsConnectionError then
        andthen (say (ConnectionFailed url)) (\<lambda>_.
        andthen (say MakeSureServerRunning) (\<lambda>_. ret JNull))
      else if is_Exception e then
        andthen (say (ErrorTesting method endpoint e)) (\<lambda>_. ret JNull)
      else raise e)"

text \<open>
  \<open>test_api_endpoint\<close>, with \<open>str.upper\<close> as a parameter. \<open>data=None\<close> is \<open>JNull\<close>.
\<close>

definition test_api_endpoint_with ::
  "(string \<Rightarrow> string) \<Rightarrow> 'st http \<Rightarrow> string \<Rightarrow> fstring \<Rightarrow> json \<Rightarrow> int \<Rightarrow> (json, 'st) prog"
  where
  "test_api_endpoint_with upper http method endpoint data expected_status w =
     (let url = Lit BASE_URL # endpoint;
          w0 = w\<lparr>invoked := invoked w @ [(method, endpoint, data, expected_status)]\<rparr>
      in case try_body upper http method endpoint url data expected_status w0 of
           (Inl e, w1) \<Rightarrow> handlers method endpoint url e w1
         | (Inr v, w1) \<Rightarrow> (Inr v, w1))"

definition test_api_endpoint ::
  "'st http \<Rightarrow> string \<Rightarrow> fstring \<Rightarrow> json \<Rightarrow> int \<Rightarrow> (json, 'st) prog" where
  "test_api_endpoint = test_api_endpoint_with py_upper"

text \<open>A scripted server for evaluation: it answers each call with the next prepared reply.\<close>

definition scripted :: "(exc + response) list http" where
  "scripted c s =
     (case s of [] \<Rightarrow> (Inl RequestsConnectionError, []) | r # rs \<Rightarrow> (r, rs))"

definition fresh :: "'st \<Rightarrow> 'st world" where
  "fresh s = \<lparr>server = s, console = [], issued = [], invoked = []\<rparr>"

definition json_reply :: "int \<Rightarrow> json \<Rightarrow> exc + response" where
  "json_reply st v =
     Inr \<lparr>status_code = st, resp_text = ''{...}'', resp_content = ''{...}'', resp_json = Inr v\<rparr>"

definition html_reply :: "int \<Rightarrow> exc + response" where
  "html_reply st =
     Inr \<lparr>status_code = st, resp_text = ''<!doctype html>'', resp_content = ''<!doctype html>'',
          resp_json = Inl JSONDecodeError\<rparr>"

subsection \<open>run_comprehensive_tests\<close>

text \<open>
  The function is one sequence of seven numbered tests; each is a definition here, and
  \<open>run_comprehensive_tests\<close> runs them in order. The locals \<open>admin_users\<close> and
  \<open>regular_users\<close> are assigned only inside a branch of test 2, so they are optional:
  reading an unassigned local raises.
\<close>

text \<open>Test 1: System Health.\<close>

definition test_system_health :: "'st http \<Rightarrow> (unit, 'st) prog" where
  "test_system_health http =
     andthen (say TestingSystemHealth) (\<lambda>_.
     andthen (test_api_endpoint http ''GET'' [Lit ''/api/analytics/system/health''] JNull 200)
       (\<lambda>health.
     andthen (lift (if truthy health
                    then after (py_get health ''system_health'' (JDict [])) (\<lambda>sh.
                         after (py_get sh ''overall_status'' JNull) (\<lambda>status.
                         Inr (status = JStr ''healthy'')))
                    else Inr False)) (\<lambda>healthy.
     say (if healthy then SystemIsHealthy else HealthCheckFailed))))"

text \<open>The two list comprehensions over \<open>users\<close>, and the one over \<open>alerts\<close>.\<close>

definition select_where :: "string \<Rightarrow> bool \<Rightarrow> json \<Rightarrow> exc + json list" where
  "select_where field wanted xs =
     after (py_iter xs)
       (filter_by (\<lambda>u. after (py_getitem u field) (\<lambda>v. Inr (truthy v = wanted))))"

text \<open>Test 2: Admin APIs. It returns the locals \<open>admin_users\<close> and \<open>regular_users\<close>.\<close>

definition test_admin_apis ::
  "'st http \<Rightarrow> (json list option \<times> json list option, 'st) prog" where
  "test_admin_apis http =
     andthen (say TestingAdminApis) (\<lambda>_.
     andthen (test_api_endpoint http ''GET'' [Lit ''/api/admin/users''] JNull 200)
       (\<lambda>users_response.
     andthen (lift (has_key users_response ''users'')) (\<lambda>has_users.
     andthen (if has_users then
                andthen (lift (py_getitem users_response ''users'')) (\<lambda>users.
                andthen (lift (select_where ''is_admin'' True users)) (\<lambda>admin_users.
                andthen (lift (select_where ''is_admin'' False users)) (\<lambda>regular_users.
                andthen (lift (py_len users)) (\<lambda>n.
                andthen (say (FoundUsers n (length admin_users) (length regular_users))) (\<lambda>_.
                ret (Some admin_users, Some regular_users))))))
              else ret (None, None)) (\<lambda>locals.
     andthen (test_api_endpoint http ''GET'' [Lit ''/api/admin/teams''] JNull 200)
       (\<lambda>teams_response.
     andthen (lift (has_key teams_response ''teams'')) (\<lambda>has_teams.
     andthen (if has_teams then
                andthen (lift (py_getitem teams_response ''teams'')) (\<lambda>teams.
                andthen (lift (py_len teams)) (\<lambda>n.
                say (FoundTeams n)))
              else ret ()) (\<lambda>_.
     andthen (test_api_endpoint http ''GET'' [Lit ''/api/admin/alerts''] JNull 200)
       (\<lambda>alerts_response.
     andthen (lift (has_key alerts_response ''alerts'')) (\<lambda>has_alerts.
     andthen (if has_alerts then
                andthen (lift (py_getitem alerts_response ''alerts'')) (\<lambda>alerts.
                andthen (lift (select_where ''is_active'' True alerts)) (\<lambda>active_alerts.
                andthen (lift (py_len alerts)) (\<lambda>n.
                say (FoundAlerts n (length active_alerts)))))
              else ret ()) (\<lambda>_.
     ret locals))))))))))"

text \<open>
  Test 3: Create New Alert. \<open>expiry_time\<close> is the text of
  \<open>(datetime.utcnow() + timedelta(hours=24)).isoformat() + "Z"\<close>: the clock is an input.
\<close>

definition new_alert_data :: "json \<Rightarrow> string \<Rightarrow> json" where
  "new_alert_data admin_id expiry_time =
     JDict [(''title'', JStr ''Test Alert - System Check''),
            (''message'', JStr ''This is a test alert created by the system test script.''),
            (''severity'', JStr ''info''),
            (''visibility_type'', JStr ''organization''),
            (''created_by'', admin_id),
            (''expiry_time'', JStr expiry_time)]"

definition update_data :: json where
  "update_data =
     JDict [(''severity'', JStr ''warning''), (''message'', JStr ''Updated test message'')]"

definition test_alert_creation ::
  "'st http \<Rightarrow> string \<Rightarrow> json list option \<Rightarrow> (unit, 'st) prog" where
  "test_alert_creation http expiry_time admin_users_var =
     andthen (say TestingAlertCreation) (\<lambda>_.
     andthen (lift (local_var ''admin_users'' admin_users_var)) (\<lambda>admin_users.
     case admin_users of
       [] \<Rightarrow> ret ()
     | first_admin # _ \<Rightarrow>
        andthen (lift (py_getitem first_admin ''id'')) (\<lambda>admin_id.
        andthen (test_api_endpoint http ''POST'' [Lit ''/api/admin/alerts'']
                   (new_alert_data admin_id expiry_time) 201) (\<lambda>create_response.
        andthen (lift (has_true create_response ''success'')) (\<lambda>created.
        if created then
          andthen (lift (after (py_getitem create_response ''alert'')
                           (\<lambda>a. py_getitem a ''id''))) (\<lambda>test_alert_id.
          andthen (say (CreatedTestAlert test_alert_id)) (\<lambda>_.
          andthen (test_api_endpoint http ''PUT''
                     [Lit ''/api/admin/alerts/'', Fmt test_alert_id] update_data 200) (\<lambda>_.
          andthen (test_api_endpoint http ''POST''
                     [Lit ''/api/admin/alerts/'', Fmt test_alert_id, Lit ''/archive'']
                     JNull 200) (\<lambda>_.
          say CleanedUpTestAlert))))
        else ret ())))))"

text \<open>Test 4: User APIs.\<close>

definition interact :: "'st http \<Rightarrow> json \<Rightarrow> json \<Rightarrow> string \<Rightarrow> (json, 'st) prog" where
  "interact http alert_id user_id action =
     test_api_endpoint http ''POST'' [Lit ''/api/user/alerts/'', Fmt alert_id, Lit action]
       (JDict [(''user_id'', user_id)]) 200"

definition test_user_apis :: "'st http \<Rightarrow> json list option \<Rightarrow> (unit, 'st) prog" where
  "test_user_apis http regular_users_var =
     andthen (say TestingUserApis) (\<lambda>_.
     andthen (lift (local_var ''regular_users'' regular_users_var)) (\<lambda>regular_users.
     case regular_users of
       [] \<Rightarrow> ret ()
     | test_user # _ \<Rightarrow>
        andthen (lift (py_getitem test_user ''id'')) (\<lambda>user_id.
        andthen (test_api_endpoint http ''GET''
                   [Lit ''/api/user/alerts?user_id='', Fmt user_id] JNull 200) (\<lambda>user_alerts.
        andthen (lift (has_key user_alerts ''alerts'')) (\<lambda>has_alerts.
        if has_alerts then
          andthen (lift (after (py_getitem user_alerts ''alerts'') py_len)) (\<lambda>alerts_count.
          andthen (lift (py_getitem test_user ''name'')) (\<lambda>name.
          andthen (say (UserHasAlerts name alerts_count)) (\<lambda>_.
          andthen (test_api_endpoint http ''GET''
                     [Lit ''/api/user/dashboard?user_id='', Fmt user_id] JNull 200)
            (\<lambda>dashboard.
          andthen (lift (has_key dashboard ''summary'')) (\<lambda>has_summary.
          andthen (if has_summary then
                     andthen (lift (py_getitem dashboard ''summary'')) (\<lambda>summary.
                     andthen (lift (py_getitem summary ''unread_count'')) (\<lambda>unread.
                     andthen (lift (py_getitem summary ''read_count'')) (\<lambda>read.
                     andthen (lift (py_getitem summary ''snoozed_count'')) (\<lambda>snoozed.
                     say (DashboardSummary unread read snoozed)))))
                   else ret ()) (\<lambda>_.
          if alerts_count > 0 then
            andthen (lift (after (py_getitem user_alerts ''alerts'') (\<lambda>alerts.
                           after (py_getitem0 alerts) (\<lambda>a. py_getitem a ''id''))))
              (\<lambda>alert_id.
            andthen (interact http alert_id user_id ''/read'') (\<lambda>_.
            andthen (interact http alert_id user_id ''/snooze'') (\<lambda>_.
            andthen (interact http alert_id user_id ''/unread'') (\<lambda>_.
            say TestedInteractions))))
          else ret ()))))))
        else ret ())))))"

text \<open>Test 5: Analytics APIs.\<close>

definition test_analytics_apis :: "'st http \<Rightarrow> (unit, 'st) prog" where
  "test_analytics_apis http =
     andthen (say TestingAnalyticsApis) (\<lambda>_.
     andthen (test_api_endpoint http ''GET'' [Lit ''/api/analytics/overview''] JNull 200)
       (\<lambda>overview.
     andthen (lift (has_key overview ''overview'')) (\<lambda>has_overview.
     andthen (if has_overview then
                andthen (lift (py_getitem overview ''overview'')) (\<lambda>ov.
                andthen (lift (after (py_getitem ov ''alerts'') (\<lambda>a. py_getitem a ''total'')))
                  (\<lambda>total.
                andthen (lift (after (py_getitem ov ''users'')
                                 (\<lambda>u. py_getitem u ''total_users''))) (\<lambda>total_users.
                say (SystemOverview total total_users))))
              else ret ()) (\<lambda>_.
     andthen (test_api_endpoint http ''GET''
                [Lit ''/api/analytics/alerts/performance?limit=10''] JNull 200) (\<lambda>_.
     andthen (test_api_endpoint http ''GET''
                [Lit ''/api/analytics/trends/daily?days=7''] JNull 200) (\<lambda>_.
     andthen (test_api_endpoint http ''GET''
                [Lit ''/api/analytics/users/engagement?limit=10''] JNull 200) (\<lambda>_.
     ret ())))))))"

text \<open>Test 6: Notification History.\<close>

definition test_notification_history ::
  "'st http \<Rightarrow> json list option \<Rightarrow> (unit, 'st) prog" where
  "test_notification_history http regular_users_var =
     andthen (say TestingNotificationHistory) (\<lambda>_.
     andthen (lift (local_var ''regular_users'' regular_users_var)) (\<lambda>regular_users.
     case regular_users of
       [] \<Rightarrow> ret ()
     | first_user # _ \<Rightarrow>
        andthen (lift (py_getitem first_user ''id'')) (\<lambda>user_id.
        andthen (test_api_endpoint http ''GET''
                   [Lit ''/api/user/notifications/history?user_id='', Fmt user_id,
                    Lit ''&per_page=5''] JNull 200) (\<lambda>history.
        andthen (lift (has_key history ''deliveries'')) (\<lambda>has_deliveries.
        if has_deliveries then
          andthen (lift (after (py_getitem history ''deliveries'') py_len)) (\<lambda>n.
          say (FoundDeliveries n))
        else ret ())))))"

text \<open>Test 7: System Statistics.\<close>

definition test_system_statistics :: "'st http \<Rightarrow> (unit, 'st) prog" where
  "test_system_statistics http =
     andthen (say TestingSystemStatistics) (\<lambda>_.
     andthen (test_api_endpoint http ''GET'' [Lit ''/api/admin/stats/system''] JNull 200)
       (\<lambda>stats.
     if truthy stats then say RetrievedStatistics else ret ()))"

fun say_all :: "line list \<Rightarrow> (unit, 'st) prog" where
  "say_all [] = ret ()"
| "say_all (l # ls) = andthen (say l) (\<lambda>_. say_all ls)"

definition closing_lines :: "line list" where
  "closing_lines =
     [Plain (CHR 0x0A # replicate 50 (CHR ''='')), TestsCompleted,
      Plain (CHR 0x0A # ''Next steps:''),
      Plain ''1. Check the application logs for any errors'',
      Plain ''2. Test the reminder system by waiting 2 hours or triggering manually'',
      Plain ''3. Create alerts with different visibility types'',
      Plain ''4. Test with different user accounts'',
      Plain (CHR 0x0A # ''For manual testing, use the sample admin account:''),
      Plain ''- Email: admin@example.com'',
      Plain ''- Create alerts via: POST /api/admin/alerts'']"

definition run_comprehensive_tests :: "'st http \<Rightarrow> string \<Rightarrow> (unit, 'st) prog" where
  "run_comprehensive_tests http expiry_time =
     andthen (say StartingSystemTests) (\<lambda>_.
     andthen (say (Plain (replicate 50 (CHR ''='')))) (\<lambda>_.
     andthen (test_system_health http) (\<lambda>_.
     andthen (test_admin_apis http) (\<lambda>locals.
     andthen (test_alert_creation http expiry_time (fst locals)) (\<lambda>_.
     andthen (test_user_apis http (snd locals)) (\<lambda>_.
     andthen (test_analytics_apis http) (\<lambda>_.
     andthen (test_notification_history http (snd locals)) (\<lambda>_.
     andthen (test_system_statistics http) (\<lambda>_.
     say_all closing_lines)))))))))"

subsection \<open>test_reminder_system\<close>

definition test_reminder_system :: "'st http \<Rightarrow> (unit, 'st) prog" where
  "test_reminder_system http =
     andthen (say TestingReminderSystem) (\<lambda>_.
     andthen (test_api_endpoint http ''GET'' [Lit ''/api/admin/alerts?status=active''] JNull 200)
       (\<lambda>alerts_response.
     andthen (lift (has_key alerts_response ''alerts'')) (\<lambda>has_alerts.
     if has_alerts then
       andthen (lift (py_getitem alerts_response ''alerts'')) (\<lambda>active_alerts.
       if truthy active_alerts then
         andthen (lift (after (py_getitem0 active_alerts) (\<lambda>a. py_getitem a ''id'')))
           (\<lambda>alert_id.
         andthen (test_api_endpoint http ''POST''
                    [Lit ''/api/admin/alerts/'', Fmt alert_id, Lit ''/send-reminder'']
                    JNull 200) (\<lambda>reminder_response.
         andthen (lift (has_true reminder_response ''success'')) (\<lambda>succeeded.
         if succeeded then
           andthen (say (TriggeredReminder alert_id)) (\<lambda>_.
           andthen (lift (py_get reminder_response ''reminders_sent'' (JInt 0))) (\<lambda>n.
           say (SentReminders n)))
         else say ReminderFailedOrNotNeeded)))
       else say NoActiveAlerts)
     else ret ())))"

section \<open>The backend, as the specification describes it\<close>

text \<open>
  Modelled from the spec: the web application behind the endpoints (the \<open>app\<close> package)
  is not among the source files. The definitions of this section follow sections 3, 4 and
  8 of the specification: alerts with an \<open>is_active\<close> flag, one delivery for each pair
  of a user and an alert visible to that user, and the operations create, update,
  archive, list, send-reminder and mark read, unread or snoozed. What the specification
  leaves open is a parameter: which users an alert is visible to, which delivery states
  count as acknowledged, and the reply to a request that fails. Expiry by the clock is
  not modelled.
\<close>

text \<open>
  Modelled from the spec: the data model of section 3, which the \<open>app\<close> package
  implements. A delivery is the state of one alert for one user; an alert carries the
  six fields of a create request, its identifier and \<open>is_active\<close>. The backend also
  records the reminders it has sent, as pairs of an alert and a user.
\<close>

datatype dstate = Unread | Read | Snoozed

record alert_fields =
  title :: string
  message :: string
  severity :: string
  visibility_type :: string
  created_by :: nat
  expiry_time :: string

record alert = alert_fields +
  alert_id :: nat
  is_active :: bool

record backend =
  users :: "nat list"
  alerts :: "alert list"
  deliveries :: "nat \<times> nat \<rightharpoonup> dstate"
  next_id :: nat
  reminded :: "(nat \<times> nat) list"

text \<open>
  Modelled from the spec: what section 9 lists as open, taken as parameters of every
  operation.
\<close>

record rules =
  visible_to :: "nat \<Rightarrow> alert \<Rightarrow> bool"
  acknowledged :: "dstate \<Rightarrow> bool"
  failure_reply :: "int \<times> json"

text \<open>A reply is a status and a JSON body.\<close>

type_synonym reply = "int \<times> json"

definition alert_json :: "alert \<Rightarrow> json" where
  "alert_json a =
     JDict [(''id'', JInt (int (alert_id a))),
            (''title'', JStr (title a)),
            (''message'', JStr (message a)),
            (''severity'', JStr (severity a)),
            (''visibility_type'', JStr (visibility_type a)),
            (''created_by'', JInt (int (created_by a))),
            (''expiry_time'', JStr (expiry_time a)),
            (''is_active'', JBool (is_active a))]"

definition success_reply :: "(string \<times> json) list \<Rightarrow> reply" where
  "success_reply extra = (200, JDict ((''success'', JBool True) # extra))"

text \<open>
  Modelled from the spec: the create endpoint of the \<open>app\<close> package (section 4.1). A
  new active alert under a fresh id, with an unread delivery for every user it is
  visible to; the reply is 201 with \<open>{success, alert: {id, ...}}\<close>.
\<close>

definition create_alert :: "rules \<Rightarrow> alert_fields \<Rightarrow> backend \<Rightarrow> reply \<times> backend" where
  "create_alert r f b =
     (let a = alert_fields.extend f (alert.fields (next_id b) True);
          seen = (\<lambda>(u, i). if i = next_id b
                            then (if u \<in> set (users b) \<and> visible_to r u a
                                  then Some Unread else None)
                            else deliveries b (u, i))
      in ((201, JDict [(''success'', JBool True), (''alert'', alert_json a)]),
          b\<lparr>alerts := alerts b @ [a], deliveries := seen, next_id := Suc (next_id b)\<rparr>))"

definition known :: "backend \<Rightarrow> nat \<Rightarrow> bool" where
  "known b i = (i \<in> set (map alert_id (alerts b)))"

definition change_alert :: "nat \<Rightarrow> (alert \<Rightarrow> alert) \<Rightarrow> backend \<Rightarrow> backend" where
  "change_alert i f b = b\<lparr>alerts := map (\<lambda>a. if alert_id a = i then f a else a) (alerts b)\<rparr>"

text \<open>
  Modelled from the spec: the update endpoint of the \<open>app\<close> package (section 4.1). It
  takes a partial set of the mutable fields, severity and message.
\<close>

definition update_alert ::
  "rules \<Rightarrow> nat \<Rightarrow> string option \<Rightarrow> string option \<Rightarrow> backend \<Rightarrow> reply \<times> backend" where
  "update_alert r i sev msg b =
     (if known b i then
        (success_reply [],
         change_alert i (\<lambda>a. a\<lparr>severity := (case sev of None \<Rightarrow> severity a | Some s \<Rightarrow> s),
                                message := (case msg of None \<Rightarrow> message a | Some m \<Rightarrow> m)\<rparr>) b)
      else (failure_reply r, b))"

text \<open>
  Modelled from the spec: the archive endpoint of the \<open>app\<close> package (sections 3 and
  4.1). The alert becomes inactive.
\<close>

definition archive_alert :: "rules \<Rightarrow> nat \<Rightarrow> backend \<Rightarrow> reply \<times> backend" where
  "archive_alert r i b =
     (if known b i then (success_reply [], change_alert i (\<lambda>a. a\<lparr>is_active := False\<rparr>) b)
      else (failure_reply r, b))"

text \<open>
  Modelled from the spec: the list endpoint of the \<open>app\<close> package (section 4.1). Every
  alert, or with \<open>status=active\<close> the active ones.
\<close>

definition listed :: "string option \<Rightarrow> backend \<Rightarrow> alert list" where
  "listed status b =
     (if status = Some ''active'' then filter is_active (alerts b) else alerts b)"

definition list_alerts :: "string option \<Rightarrow> backend \<Rightarrow> reply \<times> backend" where
  "list_alerts status b = ((200, JDict [(''alerts'', JList (map alert_json (listed status b)))]), b)"

text \<open>
  Modelled from the spec: the users a reminder for alert \<open>i\<close> goes to (glossary): those
  with a delivery of the alert that they have not acknowledged.
\<close>

definition eligible_users :: "rules \<Rightarrow> backend \<Rightarrow> nat \<Rightarrow> nat list" where
  "eligible_users r b i =
     filter (\<lambda>u. case deliveries b (u, i) of None \<Rightarrow> False | Some s \<Rightarrow> \<not> acknowledged r s)
       (users b)"

text \<open>
  Modelled from the spec: the send-reminder endpoint of the \<open>app\<close> package (section
  4.4). It acts on an active alert only; the reply is \<open>{success, reminders_sent}\<close>.
\<close>

definition send_reminder :: "rules \<Rightarrow> nat \<Rightarrow> backend \<Rightarrow> reply \<times> backend" where
  "send_reminder r i b =
     (if list_ex (\<lambda>a. alert_id a = i \<and> is_active a) (alerts b) then
        (let us = eligible_users r b i
         in (success_reply [(''reminders_sent'', JInt (int (length us)))],
             b\<lparr>reminded := reminded b @ map (\<lambda>u. (i, u)) us\<rparr>))
      else (failure_reply r, b))"

text \<open>
  Modelled from the spec: the read, unread and snooze endpoints of the \<open>app\<close> package
  (section 4.2). Each sets the state of the user's delivery of the alert.
\<close>

definition mark :: "rules \<Rightarrow> dstate \<Rightarrow> nat \<Rightarrow> nat \<Rightarrow> backend \<Rightarrow> reply \<times> backend" where
  "mark r s u i b =
     (case deliveries b (u, i) of
        None \<Rightarrow> (failure_reply r, b)
      | Some _ \<Rightarrow> (success_reply [], b\<lparr>deliveries := (deliveries b)((u, i) \<mapsto> s)\<rparr>))"

definition mark_read :: "rules \<Rightarrow> nat \<Rightarrow> nat \<Rightarrow> backend \<Rightarrow> reply \<times> backend" where
  "mark_read r = mark r Read"

definition mark_unread :: "rules \<Rightarrow> nat \<Rightarrow> nat \<Rightarrow> backend \<Rightarrow> reply \<times> backend" where
  "mark_unread r = mark r Unread"

definition snooze :: "rules \<Rightarrow> nat \<Rightarrow> nat \<Rightarrow> backend \<Rightarrow> reply \<times> backend" where
  "snooze r = mark r Snoozed"

text \<open>The operations as data, and a run of the backend over a list of them.\<close>

datatype operation =
    Create alert_fields
  | Update nat "string option" "string option"
  | Archive nat
  | ListAlerts "string option"
  | SendReminder nat
  | Mark dstate nat nat

fun serve :: "rules \<Rightarrow> operation \<Rightarrow> backend \<Rightarrow> reply \<times> backend" where
  "serve r (Create f) b = create_alert r f b"
| "serve r (Update i sev msg) b = update_alert r i sev msg b"
| "serve r (Archive i) b = archive_alert r i b"
| "serve r (ListAlerts status) b = list_alerts status b"
| "serve r (SendReminder i) b = send_reminder r i b"
| "serve r (Mark s u i) b = mark r s u i b"

fun serve_all :: "rules \<Rightarrow> operation list \<Rightarrow> backend \<Rightarrow> backend" where
  "serve_all r [] b = b"
| "serve_all r (x # xs) b = serve_all r xs (snd (serve r x b))"

text \<open>Identifiers are handed out in increasing order, so no identifier is used twice.\<close>

definition ids_fresh :: "backend \<Rightarrow> bool" where
  "ids_fresh b = list_all (\<lambda>a. alert_id a < next_id b) (alerts b)"

text \<open>Concrete values for evaluation.\<close>

definition demo_rules :: rules where
  "demo_rules =
     \<lparr>visible_to = (\<lambda>u a. True), acknowledged = (\<lambda>s. s \<noteq> Unread),
      failure_reply = (400, JDict [(''success'', JBool False)])\<rparr>"

definition demo_fields :: alert_fields where
  "demo_fields =
     \<lparr>title = ''Test Alert - System Check'', message = ''m'', severity = ''info'',
      visibility_type = ''organization'', created_by = 1, expiry_time = ''2030-01-01T00:00:00Z''\<rparr>"

definition empty_backend :: "nat list \<Rightarrow> backend" where
  "empty_backend us =
     \<lparr>users = us, alerts = [], deliveries = Map.empty, next_id = 1, reminded = []\<rparr>"

section \<open>Notions used in the statements\<close>

text \<open>
  The expected status of an invocation of \<open>test_api_endpoint\<close> is right when it is 201
  for the \<open>POST\<close> to \<open>/api/admin/alerts\<close> and 200 for every other call.
\<close>

definition expected_ok :: "string \<times> fstring \<times> json \<times> int \<Rightarrow> bool" where
  "expected_ok c =
     (case c of (method, endpoint, data, expected_status) \<Rightarrow>
        expected_status =
          (if method = ''POST'' \<and> endpoint = [Lit ''/api/admin/alerts''] then 201 else 200))"

text \<open>
  Whatever the world a program starts in, the invocations of \<open>test_api_endpoint\<close> it adds
  all satisfy \<open>P\<close>.
\<close>

definition invokes_only ::
  "(string \<times> fstring \<times> json \<times> int \<Rightarrow> bool) \<Rightarrow> ('a, 'st) prog \<Rightarrow> bool" where
  "invokes_only P m = (\<forall>w. \<exists>cs. invoked (snd (m w)) = invoked w @ cs \<and> list_all P cs)"

text \<open>
  The state of the backend after alert \<open>i\<close> has been archived: identifiers are fresh,
  \<open>i\<close> has been handed out, and no alert with identifier \<open>i\<close> is active.
\<close>

definition archived :: "nat \<Rightarrow> backend \<Rightarrow> bool" where
  "archived i b =
     (ids_fresh b \<and> i < next_id b \<and> \<not> list_ex (\<lambda>a. alert_id a = i \<and> is_active a) (alerts b))"

text \<open>The reminders sent for alert \<open>i\<close>.\<close>

definition reminders_of :: "nat \<Rightarrow> backend \<Rightarrow> (nat \<times> nat) list" where
  "reminders_of i b = filter (\<lambda>p. fst p = i) (reminded b)"

text \<open>More concrete values for evaluation.\<close>

definition answer :: "reply \<Rightarrow> exc + response" where
  "answer rep = json_reply (fst rep) (snd rep)"

definition demo_backend :: backend where
  "demo_backend =
     serve_all demo_rules [Create demo_fields, Mark Read 1 1, Mark Read 2 1] (empty_backend [1, 2])"

definition demo_alert_json :: "(string \<times> json) list" where
  "demo_alert_json =
     [(''id'', JInt 1), (''title'', JStr ''Test Alert - System Check''),
      (''message'', JStr ''m''), (''severity'', JStr ''info''),
      (''visibility_type'', JStr ''organization''), (''created_by'', JInt 1),
      (''expiry_time'', JStr ''2030-01-01T00:00:00Z''), (''is_active'', JBool True)]"

definition unread_backend :: backend where
  "unread_backend = serve_all demo_rules [Create demo_fields] (empty_backend [1, 2])"

definition demo_admin :: json where
  "demo_admin = JDict [(''id'', JInt 1), (''name'', JStr ''Admin''), (''is_admin'', JBool True)]"

definition creation_script :: "(exc + response) list" where
  "creation_script =
     [answer (fst (create_alert demo_rules demo_fields (empty_backend [1, 2]))),
      json_reply 200 (JDict [(''success'', JBool True)]),
      json_reply 200 (JDict [(''success'', JBool True)])]"

text \<open>The lines printed for a completed request.\<close>

definition status_report :: "string \<Rightarrow> fstring \<Rightarrow> int \<Rightarrow> response \<Rightarrow> line list" where
  "status_report method endpoint expected resp =
     (if status_code resp = expected
      then [StatusLine True method endpoint (status_code resp)]
      else [StatusLine False method endpoint (status_code resp),
            ExpectedGot expected (status_code resp),
            ResponseExcerpt (take 200 (resp_text resp))])"

section \<open>Properties of run.py\<close>

text \<open>
  C1. Around server startup \<open>main\<close> catches exactly two exception classes. When
  \<open>app.run\<close> raises \<open>KeyboardInterrupt\<close>, the shutdown message is printed and \<open>main\<close>
  returns: it does not exit with code 1. When it raises any other \<open>Exception\<close>, the error
  message with that exception is printed and \<open>sys.exit(1)\<close> ends the process. An exception
  of neither class leaves \<open>main\<close> unchanged, with neither message.
\<close>

theorem main_catches_exactly_two:
  assumes "create_app p (os_getenv (environ p) ''FLASK_ENV'' ''development'') = Inr a"
      and "port_of p = Inr pt"
      and "app_run p a (os_getenv (environ p) ''HOST'' ''127.0.0.1'') pt
             (os_getenv (environ p) ''FLASK_ENV'' ''development'' = ''development'') = Some e"
  shows "ending (main p) =
           (if e = KeyboardInterrupt then Inr ()
            else if is_Exception e then Inl (SystemExit 1) else Inl e) \<and>
         (ShuttingDown \<in> set (printed (main p)) \<longleftrightarrow> e = KeyboardInterrupt) \<and>
         (\<forall>x. ErrorStarting x \<in> set (printed (main p)) \<longleftrightarrow> is_Exception e \<and> x = e) \<and>
         (e = KeyboardInterrupt \<longrightarrow> ending (main p) \<noteq> Inl (SystemExit 1))"
  using assms by (auto simp: main_def Let_def)

theorem main_catches_exactly_two_witness:
  "ending (main (demo_platform Map.empty (Some KeyboardInterrupt))) = Inr () \<and>
   ShuttingDown \<in> set (printed (main (demo_platform Map.empty (Some KeyboardInterrupt)))) \<and>
   ending (main (demo_platform Map.empty (Some (OtherException ''boom'')))) = Inl (SystemExit 1) \<and>
   ending (main (demo_platform Map.empty (Some (SystemExit 3)))) = Inl (SystemExit 3)"
  using main_catches_exactly_two [of "demo_platform Map.empty (Some KeyboardInterrupt)" "()" 5000
          KeyboardInterrupt]
        main_catches_exactly_two [of "demo_platform Map.empty (Some (OtherException ''boom''))" "()"
          5000 "OtherException ''boom''"]
        main_catches_exactly_two [of "demo_platform Map.empty (Some (SystemExit 3))" "()"
          5000 "SystemExit 3"]
  by (simp add: demo_platform_def os_getenv_def port_of_def)

text \<open>
  C2. The configuration \<open>main\<close> starts the server with comes from the environment
  variables \<open>FLASK_ENV\<close>, \<open>HOST\<close> and \<open>PORT\<close> alone: the configuration name is
  \<open>FLASK_ENV\<close> or \<open>development\<close> when unset, the host is \<open>HOST\<close> or \<open>127.0.0.1\<close>, the
  port is \<open>int\<close> of \<open>PORT\<close> or 5000, debug mode is on exactly when the configuration name
  is \<open>development\<close>, and two environments that agree on the three variables give the same
  run of \<open>main\<close>. Whenever \<open>create_app\<close> returns and the port parses, \<open>app.run\<close> is
  called, with exactly that host, port and debug flag.
\<close>

theorem bootstrap_config_from_environment:
  "created_with (main p) =
     Some (case environ p ''FLASK_ENV'' of None \<Rightarrow> ''development'' | Some v \<Rightarrow> v) \<and>
   (\<forall>h pt d. run_with (main p) = Some (h, pt, d) \<longrightarrow>
      h = (case environ p ''HOST'' of None \<Rightarrow> ''127.0.0.1'' | Some v \<Rightarrow> v) \<and>
      (case environ p ''PORT'' of None \<Rightarrow> pt = 5000 | Some s \<Rightarrow> py_int p s = Inr pt) \<and>
      (d \<longleftrightarrow> created_with (main p) = Some ''development'')) \<and>
   (\<forall>env. env ''FLASK_ENV'' = environ p ''FLASK_ENV'' \<and> env ''HOST'' = environ p ''HOST'' \<and>
          env ''PORT'' = environ p ''PORT'' \<longrightarrow> main (p\<lparr>environ := env\<rparr>) = main p) \<and>
   (\<forall>a pt.
      create_app p (case environ p ''FLASK_ENV'' of None \<Rightarrow> ''development'' | Some v \<Rightarrow> v)
        = Inr a \<and>
      (case environ p ''PORT'' of None \<Rightarrow> Inr 5000 | Some s \<Rightarrow> py_int p s) = Inr pt \<longrightarrow>
      run_with (main p) =
        Some (case environ p ''HOST'' of None \<Rightarrow> ''127.0.0.1'' | Some v \<Rightarrow> v,
              pt,
              (case environ p ''FLASK_ENV'' of None \<Rightarrow> ''development'' | Some v \<Rightarrow> v)
                = ''development''))"
proof (intro conjI allI impI)
  show "created_with (main p) =
     Some (case environ p ''FLASK_ENV'' of None \<Rightarrow> ''development'' | Some v \<Rightarrow> v)"
    by (simp add: main_def Let_def os_getenv_def split: sum.splits option.splits)
next
  fix h pt d assume r: "run_with (main p) = Some (h, pt, d)"
  from r show "h = (case environ p ''HOST'' of None \<Rightarrow> ''127.0.0.1'' | Some v \<Rightarrow> v)"
    by (simp add: main_def Let_def os_getenv_def split: sum.splits option.splits if_splits)
  from r show "case environ p ''PORT'' of None \<Rightarrow> pt = 5000 | Some s \<Rightarrow> py_int p s = Inr pt"
    by (auto simp add: main_def Let_def port_of_def split: sum.splits option.splits if_splits)
  from r show "d \<longleftrightarrow> created_with (main p) = Some ''development''"
    by (simp add: main_def Let_def split: sum.splits option.splits if_splits)
next
  fix env
  assume "env ''FLASK_ENV'' = environ p ''FLASK_ENV'' \<and> env ''HOST'' = environ p ''HOST'' \<and>
          env ''PORT'' = environ p ''PORT''"
  then show "main (p\<lparr>environ := env\<rparr>) = main p"
    by (simp add: main_def os_getenv_def port_of_def Let_def
          cong: sum.case_cong option.case_cong)
next
  fix a pt
  assume "create_app p (case environ p ''FLASK_ENV'' of None \<Rightarrow> ''development'' | Some v \<Rightarrow> v)
            = Inr a \<and>
          (case environ p ''PORT'' of None \<Rightarrow> Inr 5000 | Some s \<Rightarrow> py_int p s) = Inr pt"
  then have c: "create_app p (os_getenv (environ p) ''FLASK_ENV'' ''development'') = Inr a"
    and q: "port_of p = Inr pt"
    by (simp_all add: os_getenv_def port_of_def)
  have "run_with (main p) =
          Some (os_getenv (environ p) ''HOST'' ''127.0.0.1'', pt,
                os_getenv (environ p) ''FLASK_ENV'' ''development'' = ''development'')"
    using c q by (simp add: main_def Let_def split: option.splits)
  then show "run_with (main p) =
        Some (case environ p ''HOST'' of None \<Rightarrow> ''127.0.0.1'' | Some v \<Rightarrow> v,
              pt,
              (case environ p ''FLASK_ENV'' of None \<Rightarrow> ''development'' | Some v \<Rightarrow> v)
                = ''development'')"
    by (simp add: os_getenv_def)
qed

theorem bootstrap_config_from_environment_witness:
  "run_with (main (demo_platform Map.empty None)) = Some (''127.0.0.1'', 5000, True) \<and>
   created_with (main (demo_platform Map.empty None)) = Some ''development'' \<and>
   run_with (main (demo_platform [''FLASK_ENV'' \<mapsto> ''production'', ''PORT'' \<mapsto> ''8080''] None))
     = Some (''127.0.0.1'', 8080, False) \<and>
   main (demo_platform [''HOME'' \<mapsto> ''/root''] None) = main (demo_platform Map.empty None) \<and>
   run_with (main (demo_platform [''HOST'' \<mapsto> ''0.0.0.0'', ''PORT'' \<mapsto> ''8080'']
                     (Some KeyboardInterrupt)))
     = Some (''0.0.0.0'', 8080, True)"
  using bootstrap_config_from_environment [of "demo_platform Map.empty None"]
        bootstrap_config_from_environment
          [of "demo_platform [''FLASK_ENV'' \<mapsto> ''production'', ''PORT'' \<mapsto> ''8080''] None"]
        bootstrap_config_from_environment
          [of "demo_platform [''HOST'' \<mapsto> ''0.0.0.0'', ''PORT'' \<mapsto> ''8080'']
                 (Some KeyboardInterrupt)"]
  by (simp add: demo_platform_def main_def os_getenv_def port_of_def decimal_int_def Let_def)

text \<open>
  C10. The handlers of \<open>main\<close> guard the \<open>app.run\<close> call only. When \<open>PORT\<close> is set to
  a string on which \<open>int\<close> raises a \<open>ValueError\<close>, \<open>app.run\<close> is never called, nothing
  is printed (neither the shutdown message nor the error message) and \<open>main\<close> ends with
  that \<open>ValueError\<close>, not with \<open>sys.exit(1)\<close>; had \<open>create_app\<close> raised before, its
  exception would leave \<open>main\<close> in the same way.
\<close>

theorem port_error_not_caught:
  assumes "environ p ''PORT'' = Some s" and "py_int p s = Inl (ValueError m)"
  shows "printed (main p) = [] \<and> run_with (main p) = None \<and>
         ending (main p) =
           (case create_app p (os_getenv (environ p) ''FLASK_ENV'' ''development'') of
              Inl e \<Rightarrow> Inl e | Inr a \<Rightarrow> Inl (ValueError m))"
  using assms by (simp add: main_def Let_def port_of_def split: sum.splits)

theorem port_error_not_caught_witness:
  "main (demo_platform [''PORT'' \<mapsto> ''80a''] (Some (OtherException ''never reached''))) =
     \<lparr>printed = [], created_with = Some ''development'', run_with = None,
      ending = Inl (ValueError ''80a'')\<rparr>"
  using port_error_not_caught
          [of "demo_platform [''PORT'' \<mapsto> ''80a''] (Some (OtherException ''never reached''))"
              "''80a''" "''80a''"]
  by (simp add: demo_platform_def main_def os_getenv_def port_of_def decimal_int_def Let_def)

section \<open>Properties of test_api_endpoint\<close>

lemma try_body_unsupported:
  "request_for upper method url data = Inl e \<Longrightarrow>
   try_body upper http method endpoint url data expected w = (Inl e, w)"
  by (simp add: try_body_def andthen_def lift_def)

lemma try_body_raises:
  "request_for upper method url data = Inr c \<Longrightarrow> http c (server w) = (Inl e, s') \<Longrightarrow>
   try_body upper http method endpoint url data expected w =
     (Inl e, w\<lparr>server := s', issued := issued w @ [c]\<rparr>)"
  by (simp add: try_body_def andthen_def lift_def perform_def)

lemma try_body_completes:
  "request_for upper method url data = Inr c \<Longrightarrow> http c (server w) = (Inr resp, s') \<Longrightarrow>
   try_body upper http method endpoint url data expected w =
     (if resp_content resp \<noteq> [] then resp_json resp else Inr (JDict []),
      w\<lparr>server := s', issued := issued w @ [c],
        console := console w @ status_report method endpoint expected resp\<rparr>)"
  by (simp add: try_body_def andthen_def lift_def perform_def say_def ret_def status_report_def)

lemma handlers_caught:
  "is_Exception e \<Longrightarrow>
   handlers method endpoint url e w =
     (Inr JNull,
      w\<lparr>console := console w @
          (if e = RequestsConnectionError then [ConnectionFailed url, MakeSureServerRunning]
           else [ErrorTesting method endpoint e])\<rparr>)"
  by (simp add: handlers_def andthen_def say_def ret_def)

lemma handlers_escape:
  "\<not> is_Exception e \<Longrightarrow> handlers method endpoint url e w = (Inl e, w)"
  by (cases e) (simp_all add: handlers_def raise_def)

lemma upper_GET:
  "py_upper ''get'' = ''GET''" "py_upper ''GET'' = ''GET''" "py_upper ''POST'' = ''POST''"
  "py_upper ''PUT'' = ''PUT''" "py_upper ''patch'' = ''PATCH''"
  by code_simp+

lemma test_api_endpoint_with_unsupported:
  assumes "request_for upper m (Lit BASE_URL # endpoint) data = Inl e"
  shows "test_api_endpoint_with upper http m endpoint data expected w =
           (Inr JNull,
            w\<lparr>invoked := invoked w @ [(m, endpoint, data, expected)],
              console := console w @ [ErrorTesting m endpoint e]\<rparr>)"
proof -
  from assms have "e = ValueError (''Unsupported method: '' @ m)"
    by (auto simp: request_for_def split: if_splits)
  with assms show ?thesis
    by (simp add: test_api_endpoint_with_def Let_def try_body_unsupported handlers_caught)
qed

lemma same_upper_same_outcome:
  assumes u: "upper m1 = upper m2"
  shows "fst (test_api_endpoint_with upper http m1 endpoint data expected w) =
           fst (test_api_endpoint_with upper http m2 endpoint data expected w) \<and>
         server (snd (test_api_endpoint_with upper http m1 endpoint data expected w)) =
           server (snd (test_api_endpoint_with upper http m2 endpoint data expected w)) \<and>
         issued (snd (test_api_endpoint_with upper http m1 endpoint data expected w)) =
           issued (snd (test_api_endpoint_with upper http m2 endpoint data expected w))"
proof (cases "request_for upper m1 (Lit BASE_URL # endpoint) data")
  case (Inl e)
  with u obtain e' where "request_for upper m2 (Lit BASE_URL # endpoint) data = Inl e'"
    by (auto simp: request_for_def split: if_splits)
  with Inl show ?thesis
    by (simp add: test_api_endpoint_with_unsupported)
next
  case (Inr c)
  with u have c2: "request_for upper m2 (Lit BASE_URL # endpoint) data = Inr c"
    by (auto simp: request_for_def split: if_splits)
  obtain r s' where h: "http c (server w) = (r, s')" by (cases "http c (server w)")
  show ?thesis
  proof (cases r)
    case (Inl e)
    with h Inr c2 show ?thesis
      by (cases "is_Exception e")
         (simp_all add: test_api_endpoint_with_def Let_def try_body_raises handlers_caught
            handlers_escape)
  next
    case r: (Inr resp)
    show ?thesis
    proof (cases "if resp_content resp \<noteq> [] then resp_json resp else Inr (JDict [])")
      case (Inl e)
      with h Inr c2 r show ?thesis
        by (cases "is_Exception e")
           (simp_all add: test_api_endpoint_with_def Let_def try_body_completes handlers_caught
              handlers_escape)
    next
      case v: (Inr v)
      with h Inr c2 r show ?thesis
        by (simp add: test_api_endpoint_with_def Let_def try_body_completes)
    qed
  qed
qed

text \<open>
  C3. When the request raises the connection error of the \<open>requests\<close> library or any
  other \<open>Exception\<close>, \<open>test_api_endpoint\<close> prints the failure to the console (the two
  connection lines, or the error line with the exception), has made that one call of the
  library and no other, and returns \<open>None\<close>: the exception does not reach the caller.
\<close>

theorem request_failure_reported:
  assumes "request_for upper method (Lit BASE_URL # endpoint) data = Inr c"
      and "http c (server w) = (Inl e, s')"
      and "is_Exception e"
  shows "test_api_endpoint_with upper http method endpoint data expected w =
           (Inr JNull,
            w\<lparr>server := s',
              issued := issued w @ [c],
              invoked := invoked w @ [(method, endpoint, data, expected)],
              console := console w @
                (if e = RequestsConnectionError
                 then [ConnectionFailed (Lit BASE_URL # endpoint), MakeSureServerRunning]
                 else [ErrorTesting method endpoint e])\<rparr>)"
  using assms
  by (simp add: test_api_endpoint_with_def Let_def try_body_raises handlers_caught)

theorem request_failure_reported_witness:
  "test_api_endpoint_with py_upper scripted ''GET'' [Lit ''/x''] JNull 200
     (fresh [Inl RequestsConnectionError, Inl (OtherException ''timeout'')]) =
     (Inr JNull,
      \<lparr>server = [Inl (OtherException ''timeout'')],
       console = [ConnectionFailed [Lit BASE_URL, Lit ''/x''], MakeSureServerRunning],
       issued = [Get [Lit BASE_URL, Lit ''/x'']],
       invoked = [(''GET'', [Lit ''/x''], JNull, 200)]\<rparr>)"
  using request_failure_reported [of py_upper "''GET''" "[Lit ''/x'']" JNull
          "Get [Lit BASE_URL, Lit ''/x'']" scripted
          "fresh [Inl RequestsConnectionError, Inl (OtherException ''timeout'')]"
          RequestsConnectionError "[Inl (OtherException ''timeout'')]" 200]
  by (simp add: request_for_def upper_GET scripted_def fresh_def)

lemma base_exception_escapes:
  assumes "request_for upper method (Lit BASE_URL # endpoint) data = Inr c"
      and "http c (server w) = (Inl e, s')"
      and "\<not> is_Exception e"
  shows "fst (test_api_endpoint_with upper http method endpoint data expected w) = Inl e"
  using assms
  by (simp add: test_api_endpoint_with_def Let_def try_body_raises handlers_escape)

text \<open>
  C4, as stated: for every completed request whose status differs from the expected one
  the parsed JSON body (or an empty dict for an empty body) is returned. It fails for a
  body that is not JSON: a 404 answered with an HTML page makes \<open>response.json()\<close> raise
  inside the \<open>try\<close> block, the generic handler prints the error and \<open>None\<close> is returned.
\<close>

theorem status_mismatch_counterexample:
  "test_api_endpoint scripted ''GET'' [Lit ''/api/missing''] JNull 200 (fresh [html_reply 404]) =
     (Inr JNull,
      \<lparr>server = [],
       console = [StatusLine False ''GET'' [Lit ''/api/missing''] 404,
                  ExpectedGot 200 404,
                  ResponseExcerpt ''<!doctype html>'',
                  ErrorTesting ''GET'' [Lit ''/api/missing''] JSONDecodeError],
       issued = [Get [Lit BASE_URL, Lit ''/api/missing'']],
       invoked = [(''GET'', [Lit ''/api/missing''], JNull, 200)]\<rparr>)"
  by (simp add: test_api_endpoint_def test_api_endpoint_with_def Let_def request_for_def upper_GET
        scripted_def fresh_def html_reply_def try_body_def andthen_def lift_def perform_def
        say_def ret_def handlers_def)

text \<open>
  C4, amended. For every completed request whose status differs from the expected one,
  \<open>test_api_endpoint\<close> prints the status line, the expected and the actual status and
  the first 200 characters of the response text, and makes no second request. It returns
  an empty dict when the body is empty and the parsed body when \<open>response.json()\<close>
  returns; when \<open>response.json()\<close> raises an \<open>Exception\<close>, the handlers of the function
  print the failure as well and \<open>None\<close> is returned.
\<close>

theorem status_mismatch_reported:
  assumes "request_for upper method (Lit BASE_URL # endpoint) data = Inr c"
      and "http c (server w) = (Inr resp, s')"
      and "status_code resp \<noteq> expected"
  shows "test_api_endpoint_with upper http method endpoint data expected w =
           (let w' = w\<lparr>server := s',
                       issued := issued w @ [c],
                       invoked := invoked w @ [(method, endpoint, data, expected)],
                       console := console w @
                         [StatusLine False method endpoint (status_code resp),
                          ExpectedGot expected (status_code resp),
                          ResponseExcerpt (take 200 (resp_text resp))]\<rparr>
            in if resp_content resp = [] then (Inr (JDict []), w')
               else case resp_json resp of
                      Inr v \<Rightarrow> (Inr v, w')
                    | Inl e \<Rightarrow>
                        if is_Exception e
                        then (Inr JNull,
                              w'\<lparr>console := console w' @
                                   (if e = RequestsConnectionError
                                    then [ConnectionFailed (Lit BASE_URL # endpoint),
                                          MakeSureServerRunning]
                                    else [ErrorTesting method endpoint e])\<rparr>)
                        else (Inl e, w'))"
  using assms
  by (auto simp add: test_api_endpoint_with_def Let_def try_body_completes handlers_caught
        handlers_escape status_report_def split: sum.splits)

theorem status_mismatch_reported_witness:
  "test_api_endpoint_with py_upper scripted ''GET'' [Lit ''/x''] JNull 200
     (fresh [json_reply 404 (JDict [(''error'', JStr ''not found'')])]) =
     (Inr (JDict [(''error'', JStr ''not found'')]),
      \<lparr>server = [],
       console = [StatusLine False ''GET'' [Lit ''/x''] 404, ExpectedGot 200 404,
                  ResponseExcerpt ''{...}''],
       issued = [Get [Lit BASE_URL, Lit ''/x'']],
       invoked = [(''GET'', [Lit ''/x''], JNull, 200)]\<rparr>)"
  using status_mismatch_reported [of py_upper "''GET''" "[Lit ''/x'']" JNull
          "Get [Lit BASE_URL, Lit ''/x'']" scripted
          "fresh [json_reply 404 (JDict [(''error'', JStr ''not found'')])]"
          "\<lparr>status_code = 404, resp_text = ''{...}'', resp_content = ''{...}'',
            resp_json = Inr (JDict [(''error'', JStr ''not found'')])\<rparr>" "[]" 200]
  by (simp add: request_for_def upper_GET scripted_def fresh_def json_reply_def Let_def)

text \<open>
  C9. For every method whose upper-case form is none of \<open>GET\<close>, \<open>POST\<close> and \<open>PUT\<close>,
  \<open>test_api_endpoint\<close> makes no request, prints the error line with the \<open>ValueError\<close>
  and returns \<open>None\<close>: the \<open>ValueError\<close> is caught by the generic handler of the same
  \<open>try\<close> block. Matching is on the upper-case form only: two methods with the same
  upper-case form make the same request, leave the server in the same state and return
  the same value (the console echoes the method as it was given).
\<close>

theorem unsupported_method_returns_none:
  "(upper method \<notin> {''GET'', ''POST'', ''PUT''} \<longrightarrow>
      test_api_endpoint_with upper http method endpoint data expected w =
        (Inr JNull,
         w\<lparr>invoked := invoked w @ [(method, endpoint, data, expected)],
           console := console w @
             [ErrorTesting method endpoint (ValueError (''Unsupported method: '' @ method))]\<rparr>)) \<and>
   (upper m1 = upper m2 \<longrightarrow>
      fst (test_api_endpoint_with upper http m1 endpoint data expected w) =
        fst (test_api_endpoint_with upper http m2 endpoint data expected w) \<and>
      server (snd (test_api_endpoint_with upper http m1 endpoint data expected w)) =
        server (snd (test_api_endpoint_with upper http m2 endpoint data expected w)) \<and>
      issued (snd (test_api_endpoint_with upper http m1 endpoint data expected w)) =
        issued (snd (test_api_endpoint_with upper http m2 endpoint data expected w)))"
proof (intro conjI impI)
  assume "upper method \<notin> {''GET'', ''POST'', ''PUT''}"
  then have "request_for upper method (Lit BASE_URL # endpoint) data =
      Inl (ValueError (''Unsupported method: '' @ method))"
    by (simp add: request_for_def)
  then show "test_api_endpoint_with upper http method endpoint data expected w =
        (Inr JNull,
         w\<lparr>invoked := invoked w @ [(method, endpoint, data, expected)],
           console := console w @
             [ErrorTesting method endpoint (ValueError (''Unsupported method: '' @ method))]\<rparr>)"
    by (simp add: test_api_endpoint_with_unsupported)
next
  assume u: "upper m1 = upper m2"
  let ?url = "Lit BASE_URL # endpoint"
  let ?T = "\<lambda>m. test_api_endpoint_with upper http m endpoint data expected w"
  from u same_upper_same_outcome [of upper m1 m2 http endpoint data expected w]
  show "fst (?T m1) = fst (?T m2)"
    and "server (snd (?T m1)) = server (snd (?T m2))"
    and "issued (snd (?T m1)) = issued (snd (?T m2))"
    by simp_all
qed


theorem unsupported_method_returns_none_witness:
  "test_api_endpoint_with py_upper scripted ''patch'' [Lit ''/x''] JNull 200
     (fresh [json_reply 200 JNull]) =
     (Inr JNull,
      \<lparr>server = [json_reply 200 JNull],
       console = [ErrorTesting ''patch'' [Lit ''/x''] (ValueError ''Unsupported method: patch'')],
       issued = [],
       invoked = [(''patch'', [Lit ''/x''], JNull, 200)]\<rparr>) \<and>
   fst (test_api_endpoint_with py_upper scripted ''get'' [Lit ''/x''] JNull 200
          (fresh [json_reply 200 (JInt 7)])) =
   fst (test_api_endpoint_with py_upper scripted ''GET'' [Lit ''/x''] JNull 200
          (fresh [json_reply 200 (JInt 7)])) \<and>
   issued (snd (test_api_endpoint_with py_upper scripted ''get'' [Lit ''/x''] JNull 200
          (fresh [json_reply 200 (JInt 7)]))) =
   issued (snd (test_api_endpoint_with py_upper scripted ''GET'' [Lit ''/x''] JNull 200
          (fresh [json_reply 200 (JInt 7)])))"
  using unsupported_method_returns_none [of py_upper "''patch''" scripted "[Lit ''/x'']" JNull 200
          "fresh [json_reply 200 JNull]" "''get''" "''GET''"]
        unsupported_method_returns_none [of py_upper "''patch''" scripted "[Lit ''/x'']" JNull 200
          "fresh [json_reply 200 (JInt 7)]" "''get''" "''GET''"]
  by (simp add: upper_GET fresh_def)

section \<open>Properties of the harness\<close>

lemma invokes_ret: "invokes_only P (ret x)"
  by (simp add: invokes_only_def ret_def)

lemma invokes_lift: "invokes_only P (lift r)"
  by (simp add: invokes_only_def lift_def)

lemma invokes_say: "invokes_only P (say l)"
  by (simp add: invokes_only_def say_def)

lemma invokes_andthen:
  assumes "invokes_only P m" and "\<And>x. invokes_only P (f x)"
  shows "invokes_only P (andthen m f)"
  unfolding invokes_only_def
proof
  fix w
  obtain r w1 where mw: "m w = (r, w1)" by (cases "m w")
  from assms(1) obtain cs where cs: "invoked w1 = invoked w @ cs" "list_all P cs"
    using mw by (auto simp: invokes_only_def dest: spec [of _ w])
  show "\<exists>cs. invoked (snd (andthen m f w)) = invoked w @ cs \<and> list_all P cs"
  proof (cases r)
    case (Inl e)
    with mw cs show ?thesis by (auto simp: andthen_def)
  next
    case (Inr x)
    from assms(2) [of x] obtain ds where "invoked (snd (f x w1)) = invoked w1 @ ds" "list_all P ds"
      by (auto simp: invokes_only_def dest: spec [of _ w1])
    with mw cs Inr show ?thesis by (auto simp: andthen_def)
  qed
qed

lemma invokes_if:
  "invokes_only P a \<Longrightarrow> invokes_only P b \<Longrightarrow> invokes_only P (if c then a else b)"
  by simp

lemma invokes_case_list:
  "invokes_only P a \<Longrightarrow> (\<And>x xs. invokes_only P (f x xs)) \<Longrightarrow>
   invokes_only P (case l of [] \<Rightarrow> a | x # xs \<Rightarrow> f x xs)"
  by (cases l) simp_all

lemma invoked_test_api_endpoint:
  "invoked (snd (test_api_endpoint_with upper http method endpoint data expected w)) =
     invoked w @ [(method, endpoint, data, expected)]"
proof (cases "request_for upper method (Lit BASE_URL # endpoint) data")
  case (Inl e)
  then show ?thesis by (simp add: test_api_endpoint_with_unsupported)
next
  case (Inr c)
  obtain r s' where h: "http c (server w) = (r, s')" by (cases "http c (server w)")
  show ?thesis
  proof (cases r)
    case (Inl e)
    with h Inr show ?thesis
      by (cases "is_Exception e")
         (simp_all add: test_api_endpoint_with_def Let_def try_body_raises handlers_caught
            handlers_escape)
  next
    case r: (Inr resp)
    show ?thesis
    proof (cases "if resp_content resp \<noteq> [] then resp_json resp else Inr (JDict [])")
      case (Inl e)
      with h Inr r show ?thesis
        by (cases "is_Exception e")
           (simp_all add: test_api_endpoint_with_def Let_def try_body_completes handlers_caught
              handlers_escape)
    next
      case v: (Inr v)
      with h Inr r show ?thesis
        by (simp add: test_api_endpoint_with_def Let_def try_body_completes)
    qed
  qed
qed

lemma invokes_test_api_endpoint:
  "P (method, endpoint, data, expected) \<Longrightarrow>
   invokes_only P (test_api_endpoint http method endpoint data expected)"
  by (simp add: invokes_only_def test_api_endpoint_def invoked_test_api_endpoint)

lemma invokes_say_all: "invokes_only P (say_all ls)"
  by (induction ls) (auto intro!: invokes_ret invokes_andthen invokes_say)

lemma ok_200:
  "m \<noteq> ''POST'' \<or> ep \<noteq> [Lit ''/api/admin/alerts''] \<Longrightarrow> expected_ok (m, ep, d, 200)"
  by (auto simp: expected_ok_def)

lemma ok_201: "expected_ok (''POST'', [Lit ''/api/admin/alerts''], d, 201)"
  by (simp add: expected_ok_def)

lemma invokes_health: "invokes_only expected_ok (test_system_health http)"
  unfolding test_system_health_def
  by (intro invokes_andthen invokes_say invokes_lift invokes_test_api_endpoint)
     (simp add: ok_200)

lemma invokes_admin: "invokes_only expected_ok (test_admin_apis http)"
  unfolding test_admin_apis_def
  by (intro invokes_andthen invokes_say invokes_lift invokes_test_api_endpoint invokes_if
        invokes_ret)
     (simp_all add: ok_200 ok_201)

lemma invokes_creation: "invokes_only expected_ok (test_alert_creation http t v)"
  unfolding test_alert_creation_def
  by (intro invokes_andthen invokes_say invokes_lift invokes_test_api_endpoint invokes_if
        invokes_ret invokes_case_list)
     (simp_all add: ok_200 ok_201)

lemma invokes_user: "invokes_only expected_ok (test_user_apis http v)"
  unfolding test_user_apis_def interact_def
  by (intro invokes_andthen invokes_say invokes_lift invokes_test_api_endpoint invokes_if
        invokes_ret invokes_case_list)
     (simp_all add: ok_200 ok_201)

lemma invokes_analytics: "invokes_only expected_ok (test_analytics_apis http)"
  unfolding test_analytics_apis_def
  by (intro invokes_andthen invokes_say invokes_lift invokes_test_api_endpoint invokes_if
        invokes_ret invokes_case_list)
     (simp_all add: ok_200 ok_201)

lemma invokes_history: "invokes_only expected_ok (test_notification_history http v)"
  unfolding test_notification_history_def
  by (intro invokes_andthen invokes_say invokes_lift invokes_test_api_endpoint invokes_if
        invokes_ret invokes_case_list)
     (simp_all add: ok_200 ok_201)

lemma invokes_statistics: "invokes_only expected_ok (test_system_statistics http)"
  unfolding test_system_statistics_def
  by (intro invokes_andthen invokes_say invokes_lift invokes_test_api_endpoint invokes_if
        invokes_ret invokes_case_list)
     (simp_all add: ok_200 ok_201)

lemma invokes_run: "invokes_only expected_ok (run_comprehensive_tests http t)"
  unfolding run_comprehensive_tests_def
  by (intro invokes_andthen invokes_say invokes_say_all invokes_health invokes_admin
        invokes_creation invokes_user invokes_analytics invokes_history invokes_statistics)

lemma invokes_reminder: "invokes_only expected_ok (test_reminder_system http)"
  unfolding test_reminder_system_def
  by (intro invokes_andthen invokes_say invokes_lift invokes_test_api_endpoint invokes_if
        invokes_ret invokes_case_list)
     (simp_all add: ok_200 ok_201)

lemma request_for_literals:
  "request_for py_upper ''GET'' url data = Inr (Get url)"
  "request_for py_upper ''POST'' url data = Inr (Post url data json_headers)"
  "request_for py_upper ''PUT'' url data = Inr (Put url data json_headers)"
  by (simp_all add: request_for_def upper_GET)

lemma test_api_endpoint_reply:
  assumes "request_for py_upper method (Lit BASE_URL # endpoint) data = Inr c"
      and "http c (server w) = (Inr resp, s')"
      and "resp_content resp \<noteq> []" and "resp_json resp = Inr v"
  shows "test_api_endpoint http method endpoint data expected w =
           (Inr v,
            w\<lparr>server := s', issued := issued w @ [c],
              invoked := invoked w @ [(method, endpoint, data, expected)],
              console := console w @ status_report method endpoint expected resp\<rparr>)"
  using assms
  by (simp add: test_api_endpoint_def test_api_endpoint_with_def Let_def try_body_completes)

lemma reminder_success_path:
  assumes l1: "http (Get [Lit BASE_URL, Lit ''/api/admin/alerts?status=active'']) (server w) =
                 (Inr resp1, s1)"
      and l2: "resp_content resp1 \<noteq> []"
      and l3: "resp_json resp1 = Inr (JDict d)"
      and l4: "map_of d ''alerts'' = Some (JList (JDict a # rest))"
      and l5: "map_of a ''id'' = Some aid"
      and p1: "http (Post [Lit BASE_URL, Lit ''/api/admin/alerts/'', Fmt aid,
                          Lit ''/send-reminder''] JNull json_headers) s1 = (Inr resp2, s2)"
      and p2: "resp_content resp2 \<noteq> []"
      and p3: "resp_json resp2 = Inr (JDict rd)"
      and p4: "map_of rd ''success'' = Some flag"
      and p5: "truthy flag"
  shows "test_reminder_system http w =
           (Inr (),
            w\<lparr>server := s2,
              issued := issued w @
                [Get [Lit BASE_URL, Lit ''/api/admin/alerts?status=active''],
                 Post [Lit BASE_URL, Lit ''/api/admin/alerts/'', Fmt aid,
                       Lit ''/send-reminder''] JNull json_headers],
              invoked := invoked w @
                [(''GET'', [Lit ''/api/admin/alerts?status=active''], JNull, 200),
                 (''POST'', [Lit ''/api/admin/alerts/'', Fmt aid, Lit ''/send-reminder''],
                  JNull, 200)],
              console := console w @ [TestingReminderSystem] @
                status_report ''GET'' [Lit ''/api/admin/alerts?status=active''] 200 resp1 @
                status_report ''POST''
                  [Lit ''/api/admin/alerts/'', Fmt aid, Lit ''/send-reminder''] 200 resp2 @
                [TriggeredReminder aid,
                 SentReminders (case map_of rd ''reminders_sent'' of
                                  None \<Rightarrow> JInt 0 | Some n \<Rightarrow> n)]\<rparr>)"
proof -
  let ?w0 = "w\<lparr>console := console w @ [TestingReminderSystem]\<rparr>"
  have s1: "test_api_endpoint http ''GET'' [Lit ''/api/admin/alerts?status=active''] JNull 200 ?w0 =
      (Inr (JDict d),
       ?w0\<lparr>server := s1,
           issued := issued ?w0 @ [Get [Lit BASE_URL, Lit ''/api/admin/alerts?status=active'']],
           invoked := invoked ?w0 @
             [(''GET'', [Lit ''/api/admin/alerts?status=active''], JNull, 200)],
           console := console ?w0 @
             status_report ''GET'' [Lit ''/api/admin/alerts?status=active''] 200 resp1\<rparr>)"
    (is "_ = (_, ?w1)")
    using l1 l2 l3 by (intro test_api_endpoint_reply) (simp_all add: request_for_literals)
  have s2: "test_api_endpoint http ''POST''
        [Lit ''/api/admin/alerts/'', Fmt aid, Lit ''/send-reminder''] JNull 200 ?w1 =
      (Inr (JDict rd),
       ?w1\<lparr>server := s2,
           issued := issued ?w1 @ [Post [Lit BASE_URL, Lit ''/api/admin/alerts/'', Fmt aid,
                       Lit ''/send-reminder''] JNull json_headers],
           invoked := invoked ?w1 @
             [(''POST'', [Lit ''/api/admin/alerts/'', Fmt aid, Lit ''/send-reminder''],
                  JNull, 200)],
           console := console ?w1 @
             status_report ''POST''
                  [Lit ''/api/admin/alerts/'', Fmt aid, Lit ''/send-reminder''] 200 resp2\<rparr>)"
    using p1 p2 p3 by (intro test_api_endpoint_reply) (simp_all add: request_for_literals)
  have d: "d \<noteq> []" "''alerts'' \<in> fst ` set d" using l4 by (auto dest: map_of_SomeD intro: rev_image_eqI)
  have rd: "rd \<noteq> []" using p4 by auto
  show ?thesis
    unfolding test_reminder_system_def
    using d rd l4 l5 p4 p5 s1 s2
    by (simp add: andthen_def say_def lift_def has_key_def has_true_def after_def ret_def)
qed

lemma creation_extracts_id:
  assumes a1: "py_getitem first_admin ''id'' = Inr admin_id"
      and c1: "http (Post [Lit BASE_URL, Lit ''/api/admin/alerts'']
                      (new_alert_data admin_id t) json_headers) (server w) = (Inr resp, s1)"
      and c2: "resp_content resp \<noteq> []"
      and c3: "resp_json resp = Inr cr"
      and c4: "has_true cr ''success'' = Inr True"
      and c5: "after (py_getitem cr ''alert'') (\<lambda>a. py_getitem a ''id'') = Inr tid"
  shows "test_alert_creation http t (Some (first_admin # others)) w =
           andthen (test_api_endpoint http ''PUT'' [Lit ''/api/admin/alerts/'', Fmt tid]
                      update_data 200) (\<lambda>_.
           andthen (test_api_endpoint http ''POST''
                      [Lit ''/api/admin/alerts/'', Fmt tid, Lit ''/archive''] JNull 200) (\<lambda>_.
           say CleanedUpTestAlert))
             (w\<lparr>server := s1,
                issued := issued w @
                  [Post [Lit BASE_URL, Lit ''/api/admin/alerts''] (new_alert_data admin_id t)
                     json_headers],
                invoked := invoked w @
                  [(''POST'', [Lit ''/api/admin/alerts''], new_alert_data admin_id t, 201)],
                console := console w @ [TestingAlertCreation] @
                  status_report ''POST'' [Lit ''/api/admin/alerts''] 201 resp @
                  [CreatedTestAlert tid]\<rparr>)"
proof -
  let ?w0 = "w\<lparr>console := console w @ [TestingAlertCreation]\<rparr>"
  have s: "test_api_endpoint http ''POST'' [Lit ''/api/admin/alerts'']
             (new_alert_data admin_id t) 201 ?w0 =
      (Inr cr,
       ?w0\<lparr>server := s1,
           issued := issued ?w0 @
             [Post [Lit BASE_URL, Lit ''/api/admin/alerts''] (new_alert_data admin_id t)
                json_headers],
           invoked := invoked ?w0 @
             [(''POST'', [Lit ''/api/admin/alerts''], new_alert_data admin_id t, 201)],
           console := console ?w0 @
             status_report ''POST'' [Lit ''/api/admin/alerts''] 201 resp\<rparr>)"
    using c1 c2 c3 by (intro test_api_endpoint_reply) (simp_all add: request_for_literals)
  show ?thesis
    unfolding test_alert_creation_def
    using a1 c4 c5 s
    by (simp add: andthen_def [of "say _"] andthen_def [of "lift _"]
          andthen_def [of "test_api_endpoint _ ''POST'' [Lit ''/api/admin/alerts''] _ _"]
          say_def lift_def local_var_def)
qed

lemma scripted_lit_reply:
  "test_api_endpoint scripted ''PUT'' ep d 200
     \<lparr>server = json_reply 200 v # rest, console = c, issued = i, invoked = n\<rparr> =
     (Inr v,
      \<lparr>server = rest, console = c @ [StatusLine True ''PUT'' ep 200],
       issued = i @ [Put (Lit BASE_URL # ep) d json_headers],
       invoked = n @ [(''PUT'', ep, d, 200)]\<rparr>)"
  "test_api_endpoint scripted ''POST'' ep d 200
     \<lparr>server = json_reply 200 v # rest, console = c, issued = i, invoked = n\<rparr> =
     (Inr v,
      \<lparr>server = rest, console = c @ [StatusLine True ''POST'' ep 200],
       issued = i @ [Post (Lit BASE_URL # ep) d json_headers],
       invoked = n @ [(''POST'', ep, d, 200)]\<rparr>)"
  by (simp_all add: test_api_endpoint_def test_api_endpoint_with_def Let_def request_for_literals
        try_body_completes [where c = "Put (Lit BASE_URL # ep) d json_headers" and s' = rest
           and resp = "\<lparr>status_code = 200, resp_text = ''{...}'', resp_content = ''{...}'',
                       resp_json = Inr v\<rparr>"]
        try_body_completes [where c = "Post (Lit BASE_URL # ep) d json_headers" and s' = rest
           and resp = "\<lparr>status_code = 200, resp_text = ''{...}'', resp_content = ''{...}'',
                       resp_json = Inr v\<rparr>"]
        scripted_def json_reply_def status_report_def)

section \<open>Properties of the backend of the specification\<close>

lemma archive_establishes:
  assumes "ids_fresh b" and "known b i"
  shows "archived i (snd (archive_alert r i b))"
  using assms
  by (auto simp: archived_def archive_alert_def change_alert_def ids_fresh_def known_def
        list_all_iff list_ex_iff)

lemma serve_keeps_archived:
  assumes "archived i b"
  shows "archived i (snd (serve r x b))"
proof (cases x)
  case (Create f)
  with assms show ?thesis
    by (auto simp: archived_def create_alert_def Let_def ids_fresh_def list_all_iff list_ex_iff
          alert_fields.defs alert.defs)
next
  case (Update j sev msg)
  with assms show ?thesis
    by (auto simp: archived_def update_alert_def change_alert_def ids_fresh_def list_all_iff
          list_ex_iff)
next
  case (Archive j)
  with assms show ?thesis
    by (auto simp: archived_def archive_alert_def change_alert_def ids_fresh_def list_all_iff
          list_ex_iff)
next
  case (ListAlerts st)
  with assms show ?thesis by (simp add: list_alerts_def)
next
  case (SendReminder j)
  with assms show ?thesis
    by (auto simp: archived_def send_reminder_def Let_def ids_fresh_def)
next
  case (Mark s u j)
  with assms show ?thesis
    by (auto simp: archived_def mark_def ids_fresh_def split: option.splits)
qed

lemma serve_all_keeps_archived:
  "archived i b \<Longrightarrow> archived i (serve_all r xs b)"
  by (induction xs arbitrary: b) (simp_all add: serve_keeps_archived)

lemma serve_no_reminder:
  assumes "archived i b"
  shows "reminders_of i (snd (serve r x b)) = reminders_of i b"
proof (cases x)
  case (SendReminder j)
  show ?thesis
  proof (cases "j = i")
    case True
    with assms SendReminder show ?thesis by (simp add: archived_def send_reminder_def)
  next
    case False
    with SendReminder show ?thesis
      by (auto simp: send_reminder_def Let_def reminders_of_def filter_empty_conv)
  qed
next
  case (Create f) then show ?thesis by (simp add: create_alert_def Let_def reminders_of_def)
next
  case (Update j sev msg)
  then show ?thesis by (simp add: update_alert_def change_alert_def reminders_of_def)
next
  case (Archive j)
  then show ?thesis by (simp add: archive_alert_def change_alert_def reminders_of_def)
next
  case (ListAlerts st) then show ?thesis by (simp add: list_alerts_def)
next
  case (Mark s u j)
  then show ?thesis by (simp add: mark_def reminders_of_def split: option.splits)
qed

lemma serve_all_no_reminder:
  "archived i b \<Longrightarrow> reminders_of i (serve_all r xs b) = reminders_of i b"
proof (induction xs arbitrary: b)
  case Nil
  then show ?case by simp
next
  case (Cons x xs)
  from Cons.prems have "archived i (snd (serve r x b))" by (rule serve_keeps_archived)
  with Cons.IH [of "snd (serve r x b)"] serve_no_reminder [OF Cons.prems, of r x]
  show ?case by simp
qed

lemma serve_keeps_fresh:
  assumes "ids_fresh b"
  shows "ids_fresh (snd (serve r x b))"
proof (cases x)
  case (Create f)
  with assms show ?thesis
    by (auto simp: create_alert_def Let_def ids_fresh_def list_all_iff alert_fields.defs
          alert.defs)
next
  case (Update j sev msg)
  with assms show ?thesis
    by (auto simp: update_alert_def change_alert_def ids_fresh_def list_all_iff)
next
  case (Archive j)
  with assms show ?thesis
    by (auto simp: archive_alert_def change_alert_def ids_fresh_def list_all_iff)
next
  case (ListAlerts st)
  with assms show ?thesis by (simp add: list_alerts_def)
next
  case (SendReminder j)
  with assms show ?thesis by (auto simp: send_reminder_def Let_def ids_fresh_def)
next
  case (Mark s u j)
  with assms show ?thesis by (auto simp: mark_def ids_fresh_def split: option.splits)
qed

lemma reachable_ids_fresh: "ids_fresh (serve_all r xs (empty_backend us))"
proof -
  have "ids_fresh b \<Longrightarrow> ids_fresh (serve_all r xs b)" for b
    by (induction xs arbitrary: b) (simp_all add: serve_keeps_fresh)
  moreover have "ids_fresh (empty_backend us)"
    by (simp add: ids_fresh_def empty_backend_def)
  ultimately show ?thesis by blast
qed

lemma send_reminder_none_eligible:
  assumes "list_ex (\<lambda>a. alert_id a = i \<and> is_active a) (alerts b)"
      and "eligible_users r b i = []"
  shows "send_reminder r i b =
           ((200, JDict [(''success'', JBool True), (''reminders_sent'', JInt 0)]), b)"
  using assms by (simp add: send_reminder_def success_reply_def)

lemma create_alert_reply:
  "fst (fst (create_alert r f b)) = 201 \<and>
   has_true (snd (fst (create_alert r f b))) ''success'' = Inr True \<and>
   after (py_getitem (snd (fst (create_alert r f b))) ''alert'') (\<lambda>a. py_getitem a ''id'') =
     Inr (JInt (int (next_id b)))"
  by (simp add: create_alert_def Let_def has_true_def after_def alert_json_def
        alert_fields.defs alert.defs)

lemma demo_backend_alerts:
  "alerts demo_backend =
     [alert_fields.extend demo_fields (alert.fields 1 True)]"
  by (simp add: demo_backend_def empty_backend_def create_alert_def mark_def Let_def
        split: option.splits)

lemma demo_backend_eligible: "eligible_users demo_rules demo_backend (Suc 0) = []"
  by (simp add: demo_backend_def empty_backend_def create_alert_def mark_def Let_def
        eligible_users_def demo_rules_def)

lemma demo_backend_listing:
  "fst (list_alerts (Some ''active'') demo_backend) =
     (200, JDict [(''alerts'', JList [JDict demo_alert_json])])"
  by (simp add: list_alerts_def listed_def demo_backend_alerts alert_json_def demo_fields_def
        alert_fields.defs alert.defs demo_alert_json_def)

lemma demo_backend_reminder:
  "send_reminder demo_rules (Suc 0) demo_backend =
     ((200, JDict [(''success'', JBool True), (''reminders_sent'', JInt 0)]), demo_backend)"
  by (rule send_reminder_none_eligible)
     (simp_all add: demo_backend_alerts demo_backend_eligible alert_fields.defs alert.defs)

lemma unread_backend_delivery: "deliveries unread_backend (Suc 0, Suc 0) = Some Unread"
  by (simp add: unread_backend_def empty_backend_def create_alert_def Let_def demo_rules_def)

lemma demo_backend_next_id: "next_id demo_backend = 2"
  by (simp add: demo_backend_def empty_backend_def create_alert_def mark_def Let_def
        split: option.splits)

lemma demo_backend_fresh: "ids_fresh demo_backend"
  by (simp add: ids_fresh_def demo_backend_alerts demo_backend_next_id alert_fields.defs alert.defs)

lemma demo_backend_known: "known demo_backend (Suc 0)"
  by (simp add: known_def demo_backend_alerts alert_fields.defs alert.defs)

lemma later_listing:
  "map alert_id
     (listed (Some ''active'')
        (serve_all demo_rules
           [Update 1 (Some ''warning'') None, SendReminder 1, Create demo_fields,
            Mark Unread 1 1, SendReminder 1]
           (snd (archive_alert demo_rules 1 demo_backend)))) = [2]"
  by code_simp

lemma demo_backend_known_one: "known demo_backend 1"
  using demo_backend_known by simp

section \<open>Properties of the endpoints\<close>

text \<open>
  C5. On the backend of the specification, send-reminder on an active alert with no
  eligible user replies 200 with \<open>success\<close> true and \<open>reminders_sent\<close> 0, and sends
  nothing. In the harness, whenever the listing of active alerts gives a first alert with
  an \<open>id\<close> and the reply to the send-reminder request is a JSON object whose \<open>success\<close>
  is true, \<open>test_reminder_system\<close> takes the success path: it prints the two success
  lines, with \<open>reminders_sent\<close> or 0 when the key is absent, and returns.
\<close>

theorem zero_eligible_reminder_is_success:
  "(list_ex (\<lambda>a. alert_id a = i \<and> is_active a) (alerts b) \<and> eligible_users r b i = [] \<longrightarrow>
      send_reminder r i b =
        ((200, JDict [(''success'', JBool True), (''reminders_sent'', JInt 0)]), b)) \<and>
   (http (Get [Lit BASE_URL, Lit ''/api/admin/alerts?status=active'']) (server w) =
        (Inr resp1, s1) \<and>
    resp_content resp1 \<noteq> [] \<and> resp_json resp1 = Inr (JDict d) \<and>
    map_of d ''alerts'' = Some (JList (JDict a # rest)) \<and> map_of a ''id'' = Some aid \<and>
    http (Post [Lit BASE_URL, Lit ''/api/admin/alerts/'', Fmt aid, Lit ''/send-reminder'']
            JNull json_headers) s1 = (Inr resp2, s2) \<and>
    resp_content resp2 \<noteq> [] \<and> resp_json resp2 = Inr (JDict rd) \<and>
    map_of rd ''success'' = Some flag \<and> truthy flag \<longrightarrow>
      test_reminder_system http w =
        (Inr (),
         w\<lparr>server := s2,
           issued := issued w @
             [Get [Lit BASE_URL, Lit ''/api/admin/alerts?status=active''],
              Post [Lit BASE_URL, Lit ''/api/admin/alerts/'', Fmt aid, Lit ''/send-reminder'']
                JNull json_headers],
           invoked := invoked w @
             [(''GET'', [Lit ''/api/admin/alerts?status=active''], JNull, 200),
              (''POST'', [Lit ''/api/admin/alerts/'', Fmt aid, Lit ''/send-reminder''],
               JNull, 200)],
           console := console w @ [TestingReminderSystem] @
             status_report ''GET'' [Lit ''/api/admin/alerts?status=active''] 200 resp1 @
             status_report ''POST''
               [Lit ''/api/admin/alerts/'', Fmt aid, Lit ''/send-reminder''] 200 resp2 @
             [TriggeredReminder aid,
              SentReminders (case map_of rd ''reminders_sent'' of
                               None \<Rightarrow> JInt 0 | Some n \<Rightarrow> n)]\<rparr>))"
  by (intro conjI impI; (elim conjE)?)
     (erule (1) send_reminder_none_eligible, erule (9) reminder_success_path)

theorem zero_eligible_reminder_is_success_witness:
  "send_reminder demo_rules 1 demo_backend =
     ((200, JDict [(''success'', JBool True), (''reminders_sent'', JInt 0)]), demo_backend) \<and>
   test_reminder_system scripted
     (fresh [answer (fst (list_alerts (Some ''active'') demo_backend)),
             answer (fst (send_reminder demo_rules 1 demo_backend))]) =
     (Inr (),
      \<lparr>server = [],
       console =
         [TestingReminderSystem,
          StatusLine True ''GET'' [Lit ''/api/admin/alerts?status=active''] 200,
          StatusLine True ''POST''
            [Lit ''/api/admin/alerts/'', Fmt (JInt 1), Lit ''/send-reminder''] 200,
          TriggeredReminder (JInt 1), SentReminders (JInt 0)],
       issued =
         [Get [Lit BASE_URL, Lit ''/api/admin/alerts?status=active''],
          Post [Lit BASE_URL, Lit ''/api/admin/alerts/'', Fmt (JInt 1), Lit ''/send-reminder'']
            JNull json_headers],
       invoked =
         [(''GET'', [Lit ''/api/admin/alerts?status=active''], JNull, 200),
          (''POST'', [Lit ''/api/admin/alerts/'', Fmt (JInt 1), Lit ''/send-reminder''],
           JNull, 200)]\<rparr>)"
  using zero_eligible_reminder_is_success
    [where i = 1 and b = demo_backend and r = demo_rules and http = scripted
       and w = "fresh [answer (fst (list_alerts (Some ''active'') demo_backend)),
                       answer (fst (send_reminder demo_rules 1 demo_backend))]"
       and ?resp1.0 = "\<lparr>status_code = 200, resp_text = ''{...}'', resp_content = ''{...}'',
                  resp_json = Inr (JDict [(''alerts'', JList [JDict demo_alert_json])])\<rparr>"
       and ?s1.0 = "[answer (fst (send_reminder demo_rules 1 demo_backend))]"
       and d = "[(''alerts'', JList [JDict demo_alert_json])]"
       and a = demo_alert_json and rest = "[]" and aid = "JInt 1"
       and ?resp2.0 = "\<lparr>status_code = 200, resp_text = ''{...}'', resp_content = ''{...}'',
                  resp_json = Inr (JDict [(''success'', JBool True),
                                          (''reminders_sent'', JInt 0)])\<rparr>"
       and ?s2.0 = "[]"
       and rd = "[(''success'', JBool True), (''reminders_sent'', JInt 0)]"
       and flag = "JBool True"]
  by (simp add: demo_backend_listing demo_backend_reminder demo_backend_alerts
        demo_backend_eligible alert_fields.defs alert.defs
        scripted_def answer_def json_reply_def fresh_def status_report_def demo_alert_json_def)

text \<open>
  C6. On the backend of the specification, creating an alert replies 201 with a body in
  which \<open>success\<close> is true and \<open>alert.id\<close> is the new identifier. Every invocation of
  \<open>test_api_endpoint\<close> by \<open>run_comprehensive_tests\<close> and \<open>test_reminder_system\<close> expects
  201 when it is the \<open>POST\<close> to \<open>/api/admin/alerts\<close> and 200 otherwise. When that \<open>POST\<close>
  is answered with a JSON body whose \<open>success\<close> is true, the harness takes the identifier
  from \<open>response['alert']['id']\<close>, prints it and goes on with the \<open>PUT\<close> and the archive
  \<open>POST\<close> for that identifier.
\<close>

theorem create_alert_expects_201:
  "fst (fst (create_alert r f b)) = 201 \<and>
   has_true (snd (fst (create_alert r f b))) ''success'' = Inr True \<and>
   after (py_getitem (snd (fst (create_alert r f b))) ''alert'') (\<lambda>a. py_getitem a ''id'') =
     Inr (JInt (int (next_id b))) \<and>
   invokes_only expected_ok (run_comprehensive_tests http t) \<and>
   invokes_only expected_ok (test_reminder_system http) \<and>
   (py_getitem first_admin ''id'' = Inr admin_id \<and>
    http (Post [Lit BASE_URL, Lit ''/api/admin/alerts''] (new_alert_data admin_id t)
            json_headers) (server w) = (Inr resp, s1) \<and>
    resp_content resp \<noteq> [] \<and> resp_json resp = Inr cr \<and>
    has_true cr ''success'' = Inr True \<and>
    after (py_getitem cr ''alert'') (\<lambda>a. py_getitem a ''id'') = Inr tid \<longrightarrow>
      test_alert_creation http t (Some (first_admin # others)) w =
        andthen (test_api_endpoint http ''PUT'' [Lit ''/api/admin/alerts/'', Fmt tid]
                   update_data 200) (\<lambda>_.
        andthen (test_api_endpoint http ''POST''
                   [Lit ''/api/admin/alerts/'', Fmt tid, Lit ''/archive''] JNull 200) (\<lambda>_.
        say CleanedUpTestAlert))
          (w\<lparr>server := s1,
             issued := issued w @
               [Post [Lit BASE_URL, Lit ''/api/admin/alerts''] (new_alert_data admin_id t)
                  json_headers],
             invoked := invoked w @
               [(''POST'', [Lit ''/api/admin/alerts''], new_alert_data admin_id t, 201)],
             console := console w @ [TestingAlertCreation] @
               status_report ''POST'' [Lit ''/api/admin/alerts''] 201 resp @
               [CreatedTestAlert tid]\<rparr>))"
proof (intro conjI impI)
  assume h: "py_getitem first_admin ''id'' = Inr admin_id \<and>
    http (Post [Lit BASE_URL, Lit ''/api/admin/alerts''] (new_alert_data admin_id t)
            json_headers) (server w) = (Inr resp, s1) \<and>
    resp_content resp \<noteq> [] \<and> resp_json resp = Inr cr \<and>
    has_true cr ''success'' = Inr True \<and>
    after (py_getitem cr ''alert'') (\<lambda>a. py_getitem a ''id'') = Inr tid"
  then show "test_alert_creation http t (Some (first_admin # others)) w =
        andthen (test_api_endpoint http ''PUT'' [Lit ''/api/admin/alerts/'', Fmt tid]
                   update_data 200) (\<lambda>_.
        andthen (test_api_endpoint http ''POST''
                   [Lit ''/api/admin/alerts/'', Fmt tid, Lit ''/archive''] JNull 200) (\<lambda>_.
        say CleanedUpTestAlert))
          (w\<lparr>server := s1,
             issued := issued w @
               [Post [Lit BASE_URL, Lit ''/api/admin/alerts''] (new_alert_data admin_id t)
                  json_headers],
             invoked := invoked w @
               [(''POST'', [Lit ''/api/admin/alerts''], new_alert_data admin_id t, 201)],
             console := console w @ [TestingAlertCreation] @
               status_report ''POST'' [Lit ''/api/admin/alerts''] 201 resp @
               [CreatedTestAlert tid]\<rparr>)"
    by (elim conjE) (rule creation_extracts_id, assumption+)
qed (simp_all add: create_alert_reply invokes_run invokes_reminder)

theorem create_alert_expects_201_witness:
  "test_alert_creation scripted ''2030-01-01T00:00:00Z'' (Some [demo_admin])
     (fresh creation_script) =
     (Inr (),
      \<lparr>server = [],
       console =
         [TestingAlertCreation,
          StatusLine True ''POST'' [Lit ''/api/admin/alerts''] 201,
          CreatedTestAlert (JInt 1),
          StatusLine True ''PUT'' [Lit ''/api/admin/alerts/'', Fmt (JInt 1)] 200,
          StatusLine True ''POST'' [Lit ''/api/admin/alerts/'', Fmt (JInt 1), Lit ''/archive'']
            200,
          CleanedUpTestAlert],
       issued =
         [Post [Lit BASE_URL, Lit ''/api/admin/alerts'']
            (new_alert_data (JInt 1) ''2030-01-01T00:00:00Z'') json_headers,
          Put [Lit BASE_URL, Lit ''/api/admin/alerts/'', Fmt (JInt 1)] update_data json_headers,
          Post [Lit BASE_URL, Lit ''/api/admin/alerts/'', Fmt (JInt 1), Lit ''/archive'']
            JNull json_headers],
       invoked =
         [(''POST'', [Lit ''/api/admin/alerts''],
           new_alert_data (JInt 1) ''2030-01-01T00:00:00Z'', 201),
          (''PUT'', [Lit ''/api/admin/alerts/'', Fmt (JInt 1)], update_data, 200),
          (''POST'', [Lit ''/api/admin/alerts/'', Fmt (JInt 1), Lit ''/archive''], JNull,
           200)]\<rparr>)"
  using create_alert_expects_201
    [where r = demo_rules and f = demo_fields and b = "empty_backend [1, 2]"
       and http = scripted and t = "''2030-01-01T00:00:00Z''"
       and first_admin = demo_admin and admin_id = "JInt 1" and others = "[]"
       and w = "fresh creation_script"
       and resp = "\<lparr>status_code = 201, resp_text = ''{...}'', resp_content = ''{...}'',
                    resp_json = Inr (snd (fst (create_alert demo_rules demo_fields
                                                 (empty_backend [1, 2]))))\<rparr>"
       and ?s1.0 = "[json_reply 200 (JDict [(''success'', JBool True)]),
                     json_reply 200 (JDict [(''success'', JBool True)])]"
       and cr = "snd (fst (create_alert demo_rules demo_fields (empty_backend [1, 2])))"
       and tid = "JInt 1"]
  by (simp add: demo_admin_def creation_script_def fresh_def scripted_def answer_def
        json_reply_def [of 201] status_report_def empty_backend_def
        andthen_def say_def scripted_lit_reply)

text \<open>
  C7. On the backend of the specification: once an alert that exists has been archived,
  then after any further sequence of operations it is absent from the listing filtered by
  \<open>status=active\<close>, no alert with its identifier is active, send-reminder for it fails
  and changes nothing, and no reminder has been sent for it since.
\<close>

theorem archived_alert_stays_inactive:
  assumes "ids_fresh b" and "known b i"
  shows "i \<notin> set (map alert_id (listed (Some ''active'') (serve_all r ops (snd (archive_alert r i b))))) \<and>
         \<not> list_ex (\<lambda>a. alert_id a = i \<and> is_active a)
             (alerts (serve_all r ops (snd (archive_alert r i b)))) \<and>
         send_reminder r i (serve_all r ops (snd (archive_alert r i b))) =
           (failure_reply r, serve_all r ops (snd (archive_alert r i b))) \<and>
         reminders_of i (serve_all r ops (snd (archive_alert r i b))) = reminders_of i b"
proof -
  let ?b1 = "snd (archive_alert r i b)"
  let ?b2 = "serve_all r ops ?b1"
  have a1: "archived i ?b1" using assms by (rule archive_establishes)
  then have a2: "archived i ?b2" by (rule serve_all_keeps_archived)
  have r1: "reminders_of i ?b1 = reminders_of i b"
    by (simp add: archive_alert_def change_alert_def reminders_of_def)
  from a2 have "i \<notin> set (map alert_id (listed (Some ''active'') ?b2))"
    by (auto simp: archived_def listed_def list_ex_iff)
  moreover from a2 have "\<not> list_ex (\<lambda>a. alert_id a = i \<and> is_active a) (alerts ?b2)"
    by (simp add: archived_def)
  moreover from a2 have "send_reminder r i ?b2 = (failure_reply r, ?b2)"
    by (simp add: archived_def send_reminder_def)
  moreover from a1 r1 have "reminders_of i ?b2 = reminders_of i b"
    by (simp add: serve_all_no_reminder)
  ultimately show ?thesis by blast
qed

theorem archived_alert_stays_inactive_witness:
  "ids_fresh demo_backend \<and> known demo_backend 1 \<and>
   1 \<notin> set (map alert_id
     (listed (Some ''active'')
        (serve_all demo_rules
           [Update 1 (Some ''warning'') None, SendReminder 1, Create demo_fields,
            Mark Unread 1 1, SendReminder 1]
           (snd (archive_alert demo_rules 1 demo_backend))))) \<and>
   map alert_id
     (listed (Some ''active'')
        (serve_all demo_rules
           [Update 1 (Some ''warning'') None, SendReminder 1, Create demo_fields,
            Mark Unread 1 1, SendReminder 1]
           (snd (archive_alert demo_rules 1 demo_backend)))) = [2]"
  using archived_alert_stays_inactive [OF demo_backend_fresh demo_backend_known_one,
          of demo_rules
             "[Update 1 (Some ''warning'') None, SendReminder 1, Create demo_fields,
               Mark Unread 1 1, SendReminder 1]"]
        demo_backend_fresh demo_backend_known_one later_listing
  by blast

text \<open>
  C8. On the backend of the specification: for a delivery that exists for the user,
  marking it read and then unread leaves it unread and leaves every other delivery as it
  was; when it was unread before, the whole state is as before. The sequence of the
  harness (read, snooze, unread) ends unread as well.
\<close>

theorem read_then_unread_round_trip:
  assumes "deliveries b (u, i) = Some s"
  shows "deliveries (snd (mark_unread r u i (snd (mark_read r u i b)))) (u, i) = Some Unread \<and>
         (\<forall>k. k \<noteq> (u, i) \<longrightarrow>
            deliveries (snd (mark_unread r u i (snd (mark_read r u i b)))) k = deliveries b k) \<and>
         deliveries (snd (mark_read r u i b)) (u, i) = Some Read \<and>
         (s = Unread \<longrightarrow> snd (mark_unread r u i (snd (mark_read r u i b))) = b) \<and>
         deliveries (snd (mark_unread r u i (snd (snooze r u i (snd (mark_read r u i b))))))
           (u, i) = Some Unread"
  using assms
  by (auto simp: mark_unread_def mark_read_def snooze_def mark_def fun_upd_idem)

theorem read_then_unread_round_trip_witness:
  "deliveries unread_backend (1, 1) = Some Unread \<and>
   deliveries (snd (mark_read demo_rules 1 1 unread_backend)) (1, 1) = Some Read \<and>
   snd (mark_unread demo_rules 1 1 (snd (mark_read demo_rules 1 1 unread_backend))) =
     unread_backend"
  using read_then_unread_round_trip [of unread_backend 1 1 Unread demo_rules]
  by (simp add: unread_backend_delivery)

end
